theory Spec2Isabelle
  imports
    Complex_Main
    "HOL-Library.Word"
    "HOL-Library.Char_ord"
    "HOL-Library.List_Lexorder"
    "HOL-Library.Log_Nat"
begin

section \<open>The car catalog of content_cars.go\<close>

text \<open>
  A shallow embedding of \<^verbatim>\<open>content_cars.go\<close>: the car records, the metadata codec
  (\<^verbatim>\<open>CarDetails.Load\<close>, \<^verbatim>\<open>CarDetails.Save\<close>, \<^verbatim>\<open>toNumber\<close>), the catalog operations of
  \<^verbatim>\<open>CarManager\<close> over the directory tree \<^verbatim>\<open>content/cars\<close>, the search index they keep in step
  with it, and the paginated \<^verbatim>\<open>list\<close> handler.

  Go strings are byte strings and are modelled as \<^typ>\<open>string\<close>; with the imported orders
  on characters and lists, \<open><\<close> on \<^typ>\<open>string\<close> is the bytewise lexicographic order of
  Go's string comparison. Go's \<^verbatim>\<open>int\<close> is taken to be 64 bits wide (as on every 64-bit
  platform) and is modelled, like \<^verbatim>\<open>int64\<close> and \<^verbatim>\<open>uint64\<close>, as a 64-bit word: \<open>sint\<close>
  reads a signed value, \<open>unat\<close> an unsigned one.
\<close>

subsection \<open>Records\<close>

type_synonym go_int = "64 word"

text \<open>\<^verbatim>\<open>type CarSpecs struct\<close>: the specs as authored, all strings.\<close>

record CarSpecs =
  Acceleration :: string
  BHP :: string
  PWRatio :: string
  TopSpeed :: string
  Torque :: string
  Weight :: string

text \<open>\<^verbatim>\<open>type CarSpecsNumeric struct\<close>: the same six fields as Go ints.\<close>

record CarSpecsNumeric =
  Acceleration :: go_int
  BHP :: go_int
  PWRatio :: go_int
  TopSpeed :: go_int
  Torque :: go_int
  Weight :: go_int

text \<open>
  \<^verbatim>\<open>type CarDetails struct\<close>. A \<^verbatim>\<open>json.Number\<close> is a string type, so the two curves are
  lists of lists of strings.
\<close>

record CarDetails =
  Author :: string
  Brand :: string
  Class :: string
  Country :: string
  Description :: string
  Name :: string
  PowerCurve :: "string list list"
  SpecsFull :: CarSpecs
  Specs :: CarSpecsNumeric
  Tags :: "string list"
  TorqueCurve :: "string list list"
  URL :: string
  Version :: string
  Year :: "64 word"
  DownloadURL :: string
  Notes :: string

text \<open>\<^verbatim>\<open>type Car struct\<close>. A nil map and an empty map read alike; both are \<open>Map.empty\<close>.\<close>

record Car =
  Name :: string
  Skins :: "string list"
  Tyres :: "string \<rightharpoonup> string"
  Details :: CarDetails

text \<open>The zero values \<^verbatim>\<open>CarSpecs{}\<close>, \<^verbatim>\<open>CarSpecsNumeric{}\<close> and \<^verbatim>\<open>CarDetails{}\<close>.\<close>

definition zero_CarSpecs :: CarSpecs where
  "zero_CarSpecs = \<lparr>CarSpecs.Acceleration = [], BHP = [], PWRatio = [], TopSpeed = [],
     Torque = [], Weight = []\<rparr>"

definition zero_CarSpecsNumeric :: CarSpecsNumeric where
  "zero_CarSpecsNumeric = \<lparr>CarSpecsNumeric.Acceleration = 0, BHP = 0, PWRatio = 0, TopSpeed = 0,
     Torque = 0, Weight = 0\<rparr>"

definition zero_CarDetails :: CarDetails where
  "zero_CarDetails = \<lparr>Author = [], Brand = [], Class = [], Country = [], Description = [],
     CarDetails.Name = [], PowerCurve = [], SpecsFull = zero_CarSpecs,
     Specs = zero_CarSpecsNumeric, Tags = [], TorqueCurve = [], URL = [], Version = [],
     Year = 0, DownloadURL = [], Notes = []\<rparr>"

subsection \<open>Tags\<close>

text \<open>\<^verbatim>\<open>CarDetails.AddTag\<close>: return at the first equal tag, append otherwise.\<close>

definition CarDetails_AddTag :: "CarDetails \<Rightarrow> string \<Rightarrow> CarDetails" where
  "CarDetails_AddTag cd name =
     (if list_ex (\<lambda>tag. tag = name) (Tags cd) then cd
      else cd\<lparr>Tags := Tags cd @ [name]\<rparr>)"

text \<open>
  The loop of \<^verbatim>\<open>CarDetails.DelTag\<close>: \<open>deleteIndex\<close> starts at \<open>-1\<close> (here \<open>None\<close>) and is
  overwritten at every index whose tag equals the name, so the last match stays.
\<close>

fun deleteIndex_loop :: "string \<Rightarrow> string list \<Rightarrow> nat \<Rightarrow> nat option \<Rightarrow> nat option" where
  "deleteIndex_loop name [] index deleteIndex = deleteIndex"
| "deleteIndex_loop name (tag # tags) index deleteIndex =
     deleteIndex_loop name tags (Suc index) (if tag = name then Some index else deleteIndex)"

text \<open>\<^verbatim>\<open>append(cd.Tags[:deleteIndex], cd.Tags[deleteIndex+1:]...)\<close>.\<close>

definition CarDetails_DelTag :: "CarDetails \<Rightarrow> string \<Rightarrow> CarDetails" where
  "CarDetails_DelTag cd name =
     (case deleteIndex_loop name (Tags cd) 0 None of
        None \<Rightarrow> cd
      | Some i \<Rightarrow> cd\<lparr>Tags := take i (Tags cd) @ drop (Suc i) (Tags cd)\<rparr>)"

subsection \<open>The numeric form of the specs\<close>

definition is_digit :: "char \<Rightarrow> bool" where
  "is_digit c = (CHR ''0'' \<le> c \<and> c \<le> CHR ''9'')"

text \<open>
  \<^verbatim>\<open>keepNumericRegex.FindString\<close> for the pattern \<^verbatim>\<open>[0-9]+\<close>: the leftmost match, which
  starts at the first digit of the string and, \<^verbatim>\<open>+\<close> being greedy, runs to the end of
  that digit run; the empty string when nothing matches.
\<close>

definition keepNumericRegex_FindString :: "string \<Rightarrow> string" where
  "keepNumericRegex_FindString str = takeWhile is_digit (dropWhile (\<lambda>c. \<not> is_digit c) str)"

definition digit_val :: "char \<Rightarrow> nat" where
  "digit_val c = of_char c - of_char CHR ''0''"

definition decimal :: "string \<Rightarrow> nat" where
  "decimal val = foldl (\<lambda>n c. 10 * n + digit_val c) 0 val"

text \<open>
  Modelled from the spec: \<^verbatim>\<open>formValueAsInt\<close> is called by \<^verbatim>\<open>toNumber\<close> (and by the
  \<^verbatim>\<open>list\<close> handler) but is defined in another file of the repository. The spec gives its effect
  inside the numeric normalisation: a digit run is parsed as a base-10 integer, the
  absence of digits gives 0, and a malformed numeric text normalises to zero rather than
  failing. The result is a Go \<^verbatim>\<open>int\<close>, so a digit string whose value is above
  \<open>2\<^sup>6\<^sup>3 - 1\<close> has no parse and is treated as malformed. Signs are not in the spec and
  are not modelled; \<^verbatim>\<open>toNumber\<close> never passes one.
\<close>

definition formValueAsInt :: "string \<Rightarrow> go_int" where
  "formValueAsInt val =
     (if val \<noteq> [] \<and> list_all is_digit val \<and> decimal val < 2 ^ 63
      then of_nat (decimal val) else 0)"

text \<open>\<^verbatim>\<open>func toNumber(str string) int\<close>.\<close>

definition toNumber :: "string \<Rightarrow> go_int" where
  "toNumber str = formValueAsInt (keepNumericRegex_FindString str)"

text \<open>\<^verbatim>\<open>func (cs CarSpecs) Numeric() CarSpecsNumeric\<close>.\<close>

definition Numeric :: "CarSpecs \<Rightarrow> CarSpecsNumeric" where
  "Numeric cs = \<lparr>CarSpecsNumeric.Acceleration = toNumber (CarSpecs.Acceleration cs),
     BHP = toNumber (CarSpecs.BHP cs),
     PWRatio = toNumber (CarSpecs.PWRatio cs),
     TopSpeed = toNumber (CarSpecs.TopSpeed cs),
     Torque = toNumber (CarSpecs.Torque cs),
     Weight = toNumber (CarSpecs.Weight cs)\<rparr>"

text \<open>
  The value a digit string denotes in base 10, by the weight of each position; this is
  the reading that statements about \<^const>\<open>toNumber\<close> are measured against.
\<close>

fun base10 :: "string \<Rightarrow> nat" where
  "base10 [] = 0"
| "base10 (c # cs) = digit_val c * 10 ^ length cs + base10 cs"

subsection \<open>Errors and the directory tree\<close>

text \<open>
  The error values the code tells apart. \<^verbatim>\<open>os.IsNotExist\<close> holds of \<open>NotExist\<close> only;
  \<open>IOError\<close> stands for every other failure of the operating system (permission,
  not a directory, a disk fault), \<open>SyntaxError\<close> for a failed \<^verbatim>\<open>json.Unmarshal\<close> and
  \<open>IndexError\<close> for a failure of the search backend. A nil-pointer panic is no error
  value in Go; it unwinds through every caller here exactly as an error that is not
  \<open>NotExist\<close> is passed on, so it is one more constructor.
\<close>

datatype error = NotExist | IOError | SyntaxError | NilPointerPanic | IndexError

definition os_IsNotExist :: "error \<Rightarrow> bool" where
  "os_IsNotExist err = (err = NotExist)"

text \<open>
  What opening a path gives: it is not there, it is there but the call fails for
  another reason, or its content.
\<close>

datatype 'a node = Absent | Faulty | Present 'a

text \<open>
  The bytes of a \<^verbatim>\<open>ui_car.json\<close> as \<^verbatim>\<open>json.Unmarshal\<close> sees them, after
  \<^verbatim>\<open>CarDetails.Load\<close> has dropped tabs, carriage returns, newlines and the byte-order
  mark: text that does not decode into the struct, the literal \<^verbatim>\<open>null\<close>, or an object.
  \<open>JsonObject cd\<close> is an object that decodes into a zero \<^verbatim>\<open>CarDetails\<close> as \<open>cd\<close>; its
  \<open>Specs\<close> field is the persisted \<^verbatim>\<open>"spec"\<close> block. The JSON library is not part of the
  repository, and its parsing of bytes is not modelled.
\<close>

datatype json_file = Malformed | JsonNull | JsonObject CarDetails

text \<open>
  A directory \<^verbatim>\<open>content/cars/<name>\<close>: the listing of its \<^verbatim>\<open>skins\<close> subdirectory (entry
  name and \<^verbatim>\<open>IsDir\<close>) and its file \<^verbatim>\<open>ui/ui_car.json\<close>.
\<close>

record car_dir =
  skins_dir :: "(string \<times> bool) list node"
  ui_car_json :: "json_file node"

datatype dir_entry = RegularFile | Directory car_dir

type_synonym Tyres = "string \<rightharpoonup> (string \<rightharpoonup> string)"

text \<open>
  The part of the disk the code reads and writes. \<open>cars_dir\<close> is \<^verbatim>\<open>content/cars\<close> with
  its entries in the order \<^verbatim>\<open>ioutil.ReadDir\<close> returns them (sorted by file name); a name
  is one path component. \<open>read_only\<close> makes every write and removal fail.

  \<^verbatim>\<open>ListTyres\<close> is defined in another file of the repository and reads files outside
  \<^verbatim>\<open>content/cars\<close>; what it returns on this disk, an error or the map from car name to
  the map from tyre to compound name, is the field \<open>tyres_ini\<close>.
\<close>

record filesystem =
  cars_dir :: "(string \<times> dir_entry) list node"
  tyres_ini :: "error + Tyres"
  read_only :: bool

definition is_Directory :: "dir_entry \<Rightarrow> bool" where
  "is_Directory e = (case e of RegularFile \<Rightarrow> False | Directory d \<Rightarrow> True)"

text \<open>\<^verbatim>\<open>ioutil.ReadDir(filepath.Join(ServerInstallPath, "content", "cars"))\<close>.\<close>

definition ReadDir_cars :: "filesystem \<Rightarrow> error + (string \<times> bool) list" where
  "ReadDir_cars fs =
     (case cars_dir fs of
        Absent \<Rightarrow> Inl NotExist
      | Faulty \<Rightarrow> Inl IOError
      | Present entries \<Rightarrow> Inr (map (\<lambda>(n, e). (n, is_Directory e)) entries))"

text \<open>
  Walking the path \<^verbatim>\<open>content/cars/<name>\<close> on the way to something below it: a missing
  component is \<open>NotExist\<close>, a regular file in the place of the directory is another error.
\<close>

definition carDirectory :: "filesystem \<Rightarrow> string \<Rightarrow> error + car_dir" where
  "carDirectory fs name =
     (case cars_dir fs of
        Absent \<Rightarrow> Inl NotExist
      | Faulty \<Rightarrow> Inl IOError
      | Present entries \<Rightarrow>
          (case map_of entries name of
             None \<Rightarrow> Inl NotExist
           | Some RegularFile \<Rightarrow> Inl IOError
           | Some (Directory d) \<Rightarrow> Inr d))"

definition open_node :: "'a node \<Rightarrow> error + 'a" where
  "open_node n = (case n of Absent \<Rightarrow> Inl NotExist | Faulty \<Rightarrow> Inl IOError | Present x \<Rightarrow> Inr x)"

text \<open>\<^verbatim>\<open>ioutil.ReadDir(filepath.Join(carDirectory, "skins"))\<close>.\<close>

definition ReadDir_skins :: "filesystem \<Rightarrow> string \<Rightarrow> error + (string \<times> bool) list" where
  "ReadDir_skins fs name =
     (case carDirectory fs name of Inl err \<Rightarrow> Inl err | Inr d \<Rightarrow> open_node (skins_dir d))"

text \<open>\<^verbatim>\<open>ioutil.ReadFile\<close> of \<^verbatim>\<open>content/cars/<carName>/ui/ui_car.json\<close>.\<close>

definition ReadFile_ui_car_json :: "filesystem \<Rightarrow> string \<Rightarrow> error + json_file" where
  "ReadFile_ui_car_json fs carName =
     (case carDirectory fs carName of Inl err \<Rightarrow> Inl err | Inr d \<Rightarrow> open_node (ui_car_json d))"

text \<open>
  \<^verbatim>\<open>os.MkdirAll\<close> of the \<^verbatim>\<open>ui\<close> directory, \<^verbatim>\<open>os.Create\<close> of \<^verbatim>\<open>ui_car.json\<close> in it and the
  encoder writing the document: the file of an existing car directory is replaced, a
  missing car directory (and a missing \<^verbatim>\<open>content/cars\<close>) is created, without skins.
  The strings of the document are taken to be valid UTF-8, which the encoder writes as
  they are, and a write that fails is taken to leave the disk as it was.
\<close>

definition write_ui_car_json :: "filesystem \<Rightarrow> string \<Rightarrow> CarDetails \<Rightarrow> error + filesystem" where
  "write_ui_car_json fs carName cd =
     (let fresh = Directory \<lparr>skins_dir = Absent, ui_car_json = Present (JsonObject cd)\<rparr> in
      if read_only fs then Inl IOError
      else case cars_dir fs of
        Absent \<Rightarrow> Inr (fs\<lparr>cars_dir := Present [(carName, fresh)]\<rparr>)
      | Faulty \<Rightarrow> Inl IOError
      | Present entries \<Rightarrow>
          (case map_of entries carName of
             None \<Rightarrow> Inr (fs\<lparr>cars_dir := Present (insort_key fst (carName, fresh) entries)\<rparr>)
           | Some RegularFile \<Rightarrow> Inl IOError
           | Some (Directory d) \<Rightarrow>
               (case ui_car_json d of
                  Faulty \<Rightarrow> Inl IOError
                | _ \<Rightarrow> Inr (fs\<lparr>cars_dir := Present (map (\<lambda>(n, e).
                    if n = carName
                    then (n, Directory (d\<lparr>ui_car_json := Present (JsonObject cd)\<rparr>))
                    else (n, e)) entries)\<rparr>))))"

text \<open>
  \<^verbatim>\<open>os.RemoveAll(filepath.Join(carsPath, carName))\<close>: nothing to remove is no error. A
  removal that fails is taken to remove nothing.
\<close>

definition os_RemoveAll :: "filesystem \<Rightarrow> string \<Rightarrow> error + filesystem" where
  "os_RemoveAll fs carName =
     (case cars_dir fs of
        Absent \<Rightarrow> Inr fs
      | Faulty \<Rightarrow> Inl IOError
      | Present entries \<Rightarrow>
          (case map_of entries carName of
             None \<Rightarrow> Inr fs
           | Some e \<Rightarrow>
               if read_only fs then Inl IOError
               else Inr (fs\<lparr>cars_dir := Present (filter (\<lambda>(n, e). n \<noteq> carName) entries)\<rparr>)))"

subsection \<open>The metadata codec\<close>

text \<open>
  \<^verbatim>\<open>func (cd *CarDetails) Save(carName string) error\<close>, returning the disk after the call.
\<close>

definition CarDetails_Save :: "filesystem \<Rightarrow> CarDetails \<Rightarrow> string \<Rightarrow> error + filesystem" where
  "CarDetails_Save fs cd carName = write_ui_car_json fs carName cd"

text \<open>
  \<^verbatim>\<open>func (cd *CarDetails) Load(carName string) error\<close>, for the zero receiver of its one
  call site, returning the receiver after a load without error. The call passes
  \<^verbatim>\<open>&cd\<close>, a pointer to the receiver pointer, to \<^verbatim>\<open>json.Unmarshal\<close>, which sets that
  pointer to nil for the literal \<^verbatim>\<open>null\<close>; the statement after it then dereferences nil.
\<close>

definition CarDetails_Load :: "filesystem \<Rightarrow> string \<Rightarrow> error + CarDetails" where
  "CarDetails_Load fs carName =
     (case ReadFile_ui_car_json fs carName of
        Inl err \<Rightarrow> Inl err
      | Inr Malformed \<Rightarrow> Inl SyntaxError
      | Inr JsonNull \<Rightarrow> Inl NilPointerPanic
      | Inr (JsonObject cd) \<Rightarrow> Inr (cd\<lparr>Specs := Numeric (SpecsFull cd)\<rparr>))"

subsection \<open>The catalog\<close>

text \<open>
  \<^verbatim>\<open>prettifyName\<close> is defined in another file of the repository; every function that
  reaches it takes it as the parameter \<open>prettifyName\<close>.
\<close>

definition PrettyName :: "(string \<Rightarrow> bool \<Rightarrow> string) \<Rightarrow> Car \<Rightarrow> string" where
  "PrettyName prettifyName c = prettifyName (Car.Name c) True"

text \<open>\<^verbatim>\<open>tyres[name]\<close>: a missing key and a nil map give the nil map.\<close>

definition tyres_at :: "Tyres \<Rightarrow> string \<Rightarrow> (string \<rightharpoonup> string)" where
  "tyres_at tyres name = (case tyres name of None \<Rightarrow> Map.empty | Some t \<Rightarrow> t)"

text \<open>\<^verbatim>\<open>func (cm *CarManager) LoadCar(name string, tyres Tyres) (*Car, error)\<close>.\<close>

definition LoadCar ::
  "(string \<Rightarrow> bool \<Rightarrow> string) \<Rightarrow> filesystem \<Rightarrow> string \<Rightarrow> Tyres \<Rightarrow> error + Car" where
  "LoadCar prettifyName fs name tyres =
     (case ReadDir_skins fs name of
        Inl err \<Rightarrow> Inl err
      | Inr skinFiles \<Rightarrow>
          (let skins = map fst (filter snd skinFiles) in
           case CarDetails_Load fs name of
             Inl err \<Rightarrow>
               if os_IsNotExist err
               then Inr \<lparr>Car.Name = name, Skins = skins, Tyres = tyres_at tyres name,
                      Details = zero_CarDetails\<lparr>CarDetails.Name := prettifyName name True\<rparr>\<rparr>
               else Inl err
           | Inr carDetails \<Rightarrow>
               Inr \<lparr>Car.Name = name, Skins = skins, Tyres = tyres_at tyres name,
                 Details = carDetails\<rparr>))"

text \<open>The loop of \<^verbatim>\<open>ListCars\<close> over the directory entries, \<open>cars\<close> the slice built so far.\<close>

fun ListCars_loop ::
  "(string \<Rightarrow> bool \<Rightarrow> string) \<Rightarrow> filesystem \<Rightarrow> Tyres \<Rightarrow> (string \<times> bool) list \<Rightarrow> Car list
     \<Rightarrow> error + Car list" where
  "ListCars_loop prettifyName fs tyres [] cars = Inr cars"
| "ListCars_loop prettifyName fs tyres (carFile # carFiles) cars =
     (if \<not> snd carFile then ListCars_loop prettifyName fs tyres carFiles cars
      else case LoadCar prettifyName fs (fst carFile) tyres of
        Inl err \<Rightarrow>
          if os_IsNotExist err then ListCars_loop prettifyName fs tyres carFiles cars
          else Inl err
      | Inr car \<Rightarrow> ListCars_loop prettifyName fs tyres carFiles (cars @ [car]))"

text \<open>
  \<^verbatim>\<open>func (cm *CarManager) ListCars() (Cars, error)\<close>. \<^verbatim>\<open>sort.Slice\<close> orders by the
  comparison \<^verbatim>\<open>cars[i].PrettyName() < cars[j].PrettyName()\<close> and does not promise an order
  among cars with equal pretty names; the model sorts by insertion.
\<close>

definition ListCars :: "(string \<Rightarrow> bool \<Rightarrow> string) \<Rightarrow> filesystem \<Rightarrow> error + Car list" where
  "ListCars prettifyName fs =
     (case ReadDir_cars fs of
        Inl err \<Rightarrow> Inl err
      | Inr carFiles \<Rightarrow>
          (case tyres_ini fs of
             Inl err \<Rightarrow> Inl err
           | Inr tyres \<Rightarrow>
               (case ListCars_loop prettifyName fs tyres carFiles [] of
                  Inl err \<Rightarrow> Inl err
                | Inr cars \<Rightarrow> Inr (sort_key (PrettyName prettifyName) cars))))"

subsection \<open>The search index\<close>

text \<open>
  The index is a \<^verbatim>\<open>bleve.Index\<close>, a library outside the repository. It is modelled by
  what the code relies on: \<^verbatim>\<open>Index(id, data)\<close> stores the document under the id, over any
  earlier one; \<^verbatim>\<open>Delete(id)\<close> erases it, and erasing an id that is not there is no
  error; a backend that fails (\<open>failing\<close>) answers every call with an error and changes
  nothing. The handle is taken to be open, and an id to be non-empty: the library
  rejects the empty id, and the empty string names no car directory.
\<close>

record index =
  docs :: "string \<rightharpoonup> CarDetails"
  failing :: bool

definition bleve_Index :: "index \<Rightarrow> string \<Rightarrow> CarDetails \<Rightarrow> error + index" where
  "bleve_Index idx ident data =
     (if failing idx then Inl IndexError else Inr (idx\<lparr>docs := (docs idx)(ident \<mapsto> data)\<rparr>))"

definition bleve_Delete :: "index \<Rightarrow> string \<Rightarrow> error + index" where
  "bleve_Delete idx ident =
     (if failing idx then Inl IndexError else Inr (idx\<lparr>docs := (docs idx)(ident := None)\<rparr>))"

text \<open>
  The two queries \<^verbatim>\<open>Search\<close> builds, the request of \<^verbatim>\<open>bleve.NewSearchRequestOptions\<close> and
  the part of a \<^verbatim>\<open>bleve.SearchResult\<close> the code reads: the ids of the hits, in order, and
  the total (a \<^verbatim>\<open>uint64\<close>).
\<close>

datatype query = MatchAllQuery | QueryStringQuery string

record SearchRequest =
  Query :: query
  Size :: go_int
  From :: go_int
  Explain :: bool

record SearchResult =
  Hits :: "string list"
  Total :: "64 word"

definition NewSearchRequestOptions :: "query \<Rightarrow> go_int \<Rightarrow> go_int \<Rightarrow> bool \<Rightarrow> SearchRequest" where
  "NewSearchRequestOptions q sz from explain =
     \<lparr>Query = q, Size = sz, From = from, Explain = explain\<rparr>"

text \<open>
  How the library matches and ranks is not modelled: \<^verbatim>\<open>SearchInContext\<close> is a parameter
  of the functions that search, of this type.
\<close>

type_synonym searcher = "index \<Rightarrow> SearchRequest \<Rightarrow> error + SearchResult"

subsection \<open>The car manager\<close>

text \<open>The disk together with \<^verbatim>\<open>CarManager.carIndex\<close>.\<close>

record state =
  disk :: filesystem
  carIndex :: index

text \<open>
  A Go method that returns \<^verbatim>\<open>error\<close> becomes a function to the error, if any, and the
  state it leaves.
\<close>

text \<open>\<^verbatim>\<open>func (cm *CarManager) IndexCar(car *Car) error\<close>.\<close>

definition IndexCar :: "state \<Rightarrow> Car \<Rightarrow> error option \<times> state" where
  "IndexCar st car =
     (case bleve_Index (carIndex st) (Car.Name car) (Details car) of
        Inl err \<Rightarrow> (Some err, st)
      | Inr idx \<Rightarrow> (None, st\<lparr>carIndex := idx\<rparr>))"

text \<open>\<^verbatim>\<open>func (cm *CarManager) DeIndexCar(name string) error\<close>.\<close>

definition DeIndexCar :: "state \<Rightarrow> string \<Rightarrow> error option \<times> state" where
  "DeIndexCar st name =
     (case bleve_Delete (carIndex st) name of
        Inl err \<Rightarrow> (Some err, st)
      | Inr idx \<Rightarrow> (None, st\<lparr>carIndex := idx\<rparr>))"

text \<open>
  The loop of \<^verbatim>\<open>DeleteCar\<close> over the listing: skip other names; at the first car of that
  name remove its directory and leave the loop, or return the error of the removal.
\<close>

fun DeleteCar_loop :: "filesystem \<Rightarrow> string \<Rightarrow> Car list \<Rightarrow> error + filesystem" where
  "DeleteCar_loop fs carName [] = Inr fs"
| "DeleteCar_loop fs carName (car # existingCars) =
     (if Car.Name car \<noteq> carName then DeleteCar_loop fs carName existingCars
      else os_RemoveAll fs carName)"

text \<open>\<^verbatim>\<open>func (cm *CarManager) DeleteCar(carName string) error\<close>.\<close>

definition DeleteCar ::
  "(string \<Rightarrow> bool \<Rightarrow> string) \<Rightarrow> state \<Rightarrow> string \<Rightarrow> error option \<times> state" where
  "DeleteCar prettifyName st carName =
     (case ListCars prettifyName (disk st) of
        Inl err \<Rightarrow> (Some err, st)
      | Inr existingCars \<Rightarrow>
          (case DeleteCar_loop (disk st) carName existingCars of
             Inl err \<Rightarrow> (Some err, st)
           | Inr fs \<Rightarrow> DeIndexCar (st\<lparr>disk := fs\<rparr>) carName))"

text \<open>\<^verbatim>\<open>const searchPageSize = 50\<close>.\<close>

definition searchPageSize :: go_int where
  "searchPageSize = 50"

text \<open>
  The loop of \<^verbatim>\<open>Search\<close> over the hits: \<^verbatim>\<open>cars[hit.ID], err = cm.LoadCar(hit.ID, nil)\<close>,
  then the test of \<open>err\<close>.
\<close>

fun Search_loop ::
  "(string \<Rightarrow> bool \<Rightarrow> string) \<Rightarrow> filesystem \<Rightarrow> string list \<Rightarrow> (string \<rightharpoonup> Car)
     \<Rightarrow> error + (string \<rightharpoonup> Car)" where
  "Search_loop prettifyName fs [] cars = Inr cars"
| "Search_loop prettifyName fs (hit # hits) cars =
     (case LoadCar prettifyName fs hit Map.empty of
        Inl err \<Rightarrow> Inl err
      | Inr car \<Rightarrow> Search_loop prettifyName fs hits (cars(hit \<mapsto> car)))"

text \<open>
  \<^verbatim>\<open>func (cm *CarManager) Search(ctx context.Context, term string, from int)\<close>; the
  three results \<^verbatim>\<open>(nil, nil, err)\<close> are \<open>Inl err\<close>.
\<close>

definition Search ::
  "searcher \<Rightarrow> (string \<Rightarrow> bool \<Rightarrow> string) \<Rightarrow> state \<Rightarrow> string \<Rightarrow> go_int
     \<Rightarrow> error + (SearchResult \<times> (string \<rightharpoonup> Car))" where
  "Search SearchInContext prettifyName st term from =
     (let q = (if term = [] then MatchAllQuery else QueryStringQuery term);
          request = NewSearchRequestOptions q searchPageSize from False
      in case SearchInContext (carIndex st) request of
        Inl err \<Rightarrow> Inl err
      | Inr results \<Rightarrow>
          (case Search_loop prettifyName (disk st) (Hits results) Map.empty of
             Inl err \<Rightarrow> Inl err
           | Inr cars \<Rightarrow> Inr (results, cars)))"

text \<open>\<^verbatim>\<open>func (cm *CarManager) SaveCarDetails(carName string, car *Car) error\<close>.\<close>

definition SaveCarDetails :: "state \<Rightarrow> string \<Rightarrow> Car \<Rightarrow> error option \<times> state" where
  "SaveCarDetails st carName car =
     (case CarDetails_Save (disk st) (Details car) carName of
        Inl err \<Rightarrow> (Some err, st)
      | Inr fs \<Rightarrow> IndexCar (st\<lparr>disk := fs\<rparr>) car)"

text \<open>\<^verbatim>\<open>func (cm *CarManager) AddTag(carName, tag string) error\<close>.\<close>

definition AddTag ::
  "(string \<Rightarrow> bool \<Rightarrow> string) \<Rightarrow> state \<Rightarrow> string \<Rightarrow> string \<Rightarrow> error option \<times> state" where
  "AddTag prettifyName st carName tag =
     (case LoadCar prettifyName (disk st) carName Map.empty of
        Inl err \<Rightarrow> (Some err, st)
      | Inr car \<Rightarrow>
          SaveCarDetails st carName (car\<lparr>Details := CarDetails_AddTag (Details car) tag\<rparr>))"

text \<open>\<^verbatim>\<open>func (cm *CarManager) DelTag(carName, tag string) error\<close>.\<close>

definition DelTag ::
  "(string \<Rightarrow> bool \<Rightarrow> string) \<Rightarrow> state \<Rightarrow> string \<Rightarrow> string \<Rightarrow> error option \<times> state" where
  "DelTag prettifyName st carName tag =
     (case LoadCar prettifyName (disk st) carName Map.empty of
        Inl err \<Rightarrow> (Some err, st)
      | Inr car \<Rightarrow>
          SaveCarDetails st carName (car\<lparr>Details := CarDetails_DelTag (Details car) tag\<rparr>))"

text \<open>
  \<^verbatim>\<open>func (cm *CarManager) UpdateCarMetadata(carName string, r *http.Request) error\<close>;
  \<open>notes\<close> and \<open>downloadURL\<close> are \<^verbatim>\<open>r.FormValue("Notes")\<close> and
  \<^verbatim>\<open>r.FormValue("DownloadURL")\<close>. The method ends in \<^verbatim>\<open>car.Details.Save(carName)\<close>.
\<close>

definition UpdateCarMetadata ::
  "(string \<Rightarrow> bool \<Rightarrow> string) \<Rightarrow> state \<Rightarrow> string \<Rightarrow> string \<Rightarrow> string
     \<Rightarrow> error option \<times> state" where
  "UpdateCarMetadata prettifyName st carName notes downloadURL =
     (case LoadCar prettifyName (disk st) carName Map.empty of
        Inl err \<Rightarrow> (Some err, st)
      | Inr car \<Rightarrow>
          (case CarDetails_Save (disk st)
                  ((Details car)\<lparr>Notes := notes, DownloadURL := downloadURL\<rparr>) carName of
             Inl err \<Rightarrow> (Some err, st)
           | Inr fs \<Rightarrow> (None, st\<lparr>disk := fs\<rparr>)))"

text \<open>The Details document on disk for a name, when there is one that decodes.\<close>

definition persisted :: "filesystem \<Rightarrow> string \<Rightarrow> CarDetails option" where
  "persisted fs name =
     (case ReadFile_ui_car_json fs name of
        Inr (JsonObject cd) \<Rightarrow> Some cd
      | _ \<Rightarrow> None)"

text \<open>
  The disk with every car directory whose \<^verbatim>\<open>skins\<close> subdirectory is missing taken out of
  \<^verbatim>\<open>content/cars\<close>; it serves to say that such directories do not bear on a listing.
\<close>

definition without_skinless :: "filesystem \<Rightarrow> filesystem" where
  "without_skinless fs =
     (case cars_dir fs of
        Present entries \<Rightarrow>
          fs\<lparr>cars_dir := Present (filter (\<lambda>(n, e). ReadDir_skins fs n \<noteq> Inl NotExist) entries)\<rparr>
      | _ \<Rightarrow> fs)"

subsection \<open>The list handler\<close>

text \<open>
  The handler computes the number of pages in \<^verbatim>\<open>float64\<close>. The values that occur are
  finite and not negative, and far from the ends of the exponent range; such a
  \<^verbatim>\<open>float64\<close> is modelled by the rational number it denotes. \<open>float64_round\<close> is the
  rounding of IEEE 754 arithmetic for them: to the nearest number with a significand of
  53 bits, a tie going to the even significand. \<open>float64_exponent x\<close> is the exponent of
  the power of two at or below \<open>x\<close>.
\<close>

definition round_half_even :: "rat \<Rightarrow> int" where
  "round_half_even x =
     (let n = \<lfloor>x\<rfloor>; r = x - of_int n
      in if r < 1 / 2 then n else if 1 / 2 < r then n + 1 else if even n then n else n + 1)"

definition float64_exponent :: "rat \<Rightarrow> int" where
  "float64_exponent x = (let s = bitlen \<lceil>1 / x\<rceil> in bitlen \<lfloor>x * 2 ^ nat s\<rfloor> - 1 - s)"

definition float64_round :: "rat \<Rightarrow> rat" where
  "float64_round x =
     (if x = 0 then 0
      else let e = float64_exponent x - 52
           in of_int (round_half_even (x / 2 powi e)) * 2 powi e)"

text \<open>
  The conversions \<^verbatim>\<open>float64(n)\<close> of a \<^verbatim>\<open>uint64\<close> and of a non-negative \<^verbatim>\<open>int\<close>, the
  quotient \<^verbatim>\<open>x / y\<close>, \<^verbatim>\<open>math.Ceil\<close>, and the conversion \<^verbatim>\<open>int(x)\<close>, which drops the
  fraction (the values here are below \<open>2\<^sup>6\<^sup>3\<close>).
\<close>

definition float64_of_uint64 :: "64 word \<Rightarrow> rat" where
  "float64_of_uint64 n = float64_round (of_nat (unat n))"

definition float64_of_int :: "go_int \<Rightarrow> rat" where
  "float64_of_int n = float64_round (of_int (sint n))"

definition float64_div :: "rat \<Rightarrow> rat \<Rightarrow> rat" where
  "float64_div x y = float64_round (x / y)"

definition math_Ceil :: "rat \<Rightarrow> rat" where
  "math_Ceil x = of_int \<lceil>x\<rceil>"

definition int_of_float64 :: "rat \<Rightarrow> go_int" where
  "int_of_float64 x = word_of_int (if 0 \<le> x then \<lfloor>x\<rfloor> else \<lceil>x\<rceil>)"

text \<open>
  \<^verbatim>\<open>int(math.Ceil(float64(float64(results.Total)) / float64(searchPageSize)))\<close>, the
  expression \<^verbatim>\<open>list\<close> assigns to \<open>numPages\<close>.
\<close>

definition numPages :: "64 word \<Rightarrow> go_int" where
  "numPages totalHits =
     int_of_float64 (math_Ceil
       (float64_div (float64_of_uint64 totalHits) (float64_of_int searchPageSize)))"

text \<open>
  The parameters \<^verbatim>\<open>list\<close> hands to the template \<^verbatim>\<open>content/cars.html\<close>, and its two
  outcomes: the status 500 or the rendered page.
\<close>

record cars_html =
  Results :: SearchResult
  Cars :: "string \<rightharpoonup> Car"
  Query :: string
  CurrentPage :: go_int
  NumPages :: go_int
  PageSize :: go_int

datatype response = InternalServerError | Template cars_html

text \<open>
  \<^verbatim>\<open>func (ch *CarsHandler) list(w http.ResponseWriter, r *http.Request)\<close>. \<open>searchTerm\<close>
  is the URL parameter \<^verbatim>\<open>q\<close>; \<open>page\<close> is the value the handler gets from
  \<^verbatim>\<open>formValueAsInt\<close> for the URL parameter \<^verbatim>\<open>page\<close>, so that nothing here rests on what
  that function makes of text that is no digit string.
\<close>

definition CarsHandler_list ::
  "searcher \<Rightarrow> (string \<Rightarrow> bool \<Rightarrow> string) \<Rightarrow> state \<Rightarrow> string \<Rightarrow> go_int \<Rightarrow> response" where
  "CarsHandler_list SearchInContext prettifyName st searchTerm page =
     (case Search SearchInContext prettifyName st searchTerm (page * searchPageSize) of
        Inl err \<Rightarrow> InternalServerError
      | Inr (results, cars) \<Rightarrow>
          Template \<lparr>Results = results, Cars = cars, Query = searchTerm, CurrentPage = page,
            NumPages = numPages (Total results), PageSize = searchPageSize\<rparr>)"

subsection \<open>A small installation\<close>

text \<open>
  A \<^verbatim>\<open>content/cars\<close> with a car that has skins and metadata (whose persisted numeric
  specs are out of date), a car with skins and no \<^verbatim>\<open>ui_car.json\<close>, a directory without
  a \<^verbatim>\<open>skins\<close> subdirectory, and a stray file; an index in step with the first car that
  also still holds the directory without skins; and a search that returns these two.
\<close>

definition example_prettifyName :: "string \<Rightarrow> bool \<Rightarrow> string" where
  "example_prettifyName s acronyms = map (\<lambda>c. if c = CHR ''_'' then CHR '' '' else c) s"

definition example_details :: CarDetails where
  "example_details = zero_CarDetails\<lparr>Brand := ''Abarth'', CarDetails.Name := ''Abarth 500'',
     SpecsFull := zero_CarSpecs\<lparr>CarSpecs.BHP := ''160 bhp'', CarSpecs.Weight := ''1025 kg''\<rparr>,
     Specs := zero_CarSpecsNumeric\<lparr>CarSpecsNumeric.BHP := 999\<rparr>, Tags := [''fwd'', ''small'']\<rparr>"

definition example_loaded :: CarDetails where
  "example_loaded = example_details\<lparr>Specs :=
     zero_CarSpecsNumeric\<lparr>CarSpecsNumeric.BHP := 160, CarSpecsNumeric.Weight := 1025\<rparr>\<rparr>"

definition example_skinless :: car_dir where
  "example_skinless = \<lparr>skins_dir = Absent, ui_car_json = Absent\<rparr>"

definition example_disk :: filesystem where
  "example_disk = \<lparr>cars_dir = Present
       [(''abarth500'', Directory \<lparr>skins_dir = Present [(''red'', True), (''notes.txt'', False)],
           ui_car_json = Present (JsonObject example_details)\<rparr>),
        (''bmw_m3'', Directory \<lparr>skins_dir = Present [(''blue'', True)], ui_car_json = Absent\<rparr>),
        (''ghost'', Directory example_skinless),
        (''readme.txt'', RegularFile)],
     tyres_ini = Inr Map.empty, read_only = False\<rparr>"

definition example_index :: index where
  "example_index = \<lparr>docs = [''abarth500'' \<mapsto> example_loaded, ''ghost'' \<mapsto> zero_CarDetails],
     failing = False\<rparr>"

definition example_state :: state where
  "example_state = \<lparr>disk = example_disk, carIndex = example_index\<rparr>"

definition example_abarth :: Car where
  "example_abarth = \<lparr>Car.Name = ''abarth500'', Skins = [''red''], Tyres = Map.empty,
     Details = example_loaded\<rparr>"

definition example_bmw :: Car where
  "example_bmw = \<lparr>Car.Name = ''bmw_m3'', Skins = [''blue''], Tyres = Map.empty,
     Details = zero_CarDetails\<lparr>CarDetails.Name := ''bmw m3''\<rparr>\<rparr>"

definition example_SearchInContext :: searcher where
  "example_SearchInContext idx request = Inr \<lparr>Hits = [''abarth500'', ''ghost''], Total = 2\<rparr>"

text \<open>
  Two more searches: one with 125 hits in all, and one that answers only the request
  whose offset is \<open>-2\<^sup>6\<^sup>3\<close>, with a total above \<open>2\<^sup>5\<^sup>3\<close>.
\<close>

definition example_SearchInContext_125 :: searcher where
  "example_SearchInContext_125 idx request = Inr \<lparr>Hits = [''abarth500''], Total = 125\<rparr>"

definition example_SearchInContext_probe :: searcher where
  "example_SearchInContext_probe idx request =
     (if sint (From request) = - 9223372036854775808
      then Inr \<lparr>Hits = [], Total = 9007199254741001\<rparr>
      else Inl IndexError)"

text \<open>The page rendered from the answer of the second of them.\<close>

definition example_probe_page :: cars_html where
  "example_probe_page = \<lparr>Results = \<lparr>Hits = [], Total = 9007199254741001\<rparr>, Cars = Map.empty,
     Query = [], CurrentPage = 4611686018427387904, NumPages = 180143985094820,
     PageSize = 50\<rparr>"

text \<open>The example disk after \<^verbatim>\<open>content/cars/abarth500\<close> is removed.\<close>

definition example_disk_without_abarth :: filesystem where
  "example_disk_without_abarth = example_disk\<lparr>cars_dir := Present
       [(''bmw_m3'', Directory \<lparr>skins_dir = Present [(''blue'', True)], ui_car_json = Absent\<rparr>),
        (''ghost'', Directory example_skinless),
        (''readme.txt'', RegularFile)]\<rparr>"

text \<open>
  A second \<^verbatim>\<open>content/cars\<close>, on which the listing is not in directory order:
  \<^verbatim>\<open>ioutil.ReadDir\<close> returns \<^verbatim>\<open>ktm-xbow\<close> before \<^verbatim>\<open>ktm_xbow_r\<close>, and the pretty names
  compare the other way. Neither car has a \<^verbatim>\<open>ui_car.json\<close>, and \<^verbatim>\<open>ghost\<close> has no skins.
\<close>

definition example_disk_ktm :: filesystem where
  "example_disk_ktm = \<lparr>cars_dir = Present
       [(''ghost'', Directory example_skinless),
        (''ktm-xbow'', Directory \<lparr>skins_dir = Present [(''orange'', True)], ui_car_json = Absent\<rparr>),
        (''ktm_xbow_r'', Directory \<lparr>skins_dir = Present [(''black'', True)],
           ui_car_json = Absent\<rparr>)],
     tyres_ini = Inr Map.empty, read_only = False\<rparr>"

definition example_xbow :: Car where
  "example_xbow = \<lparr>Car.Name = ''ktm-xbow'', Skins = [''orange''], Tyres = Map.empty,
     Details = zero_CarDetails\<lparr>CarDetails.Name := ''ktm-xbow''\<rparr>\<rparr>"

definition example_xbow_r :: Car where
  "example_xbow_r = \<lparr>Car.Name = ''ktm_xbow_r'', Skins = [''black''], Tyres = Map.empty,
     Details = zero_CarDetails\<lparr>CarDetails.Name := ''ktm xbow r''\<rparr>\<rparr>"

text \<open>
  The first installation with one more car, \<^verbatim>\<open>broken\<close>, whose \<^verbatim>\<open>ui_car.json\<close> does not
  decode.
\<close>

definition example_disk_broken :: filesystem where
  "example_disk_broken = example_disk\<lparr>cars_dir := Present
       [(''abarth500'', Directory \<lparr>skins_dir = Present [(''red'', True), (''notes.txt'', False)],
           ui_car_json = Present (JsonObject example_details)\<rparr>),
        (''bmw_m3'', Directory \<lparr>skins_dir = Present [(''blue'', True)], ui_car_json = Absent\<rparr>),
        (''broken'', Directory \<lparr>skins_dir = Present [(''grey'', True)],
           ui_car_json = Present Malformed\<rparr>),
        (''ghost'', Directory example_skinless),
        (''readme.txt'', RegularFile)]\<rparr>"

definition example_state_broken :: state where
  "example_state_broken = \<lparr>disk = example_disk_broken, carIndex = example_index\<rparr>"

section \<open>Properties\<close>

subsection \<open>Numeric normalisation\<close>

lemma foldl_decimal: "foldl (\<lambda>n c. 10 * n + digit_val c) n ds = n * 10 ^ length ds + base10 ds"
  by (induction ds arbitrary: n) (simp_all add: algebra_simps)

lemma decimal_base10: "decimal ds = base10 ds"
  by (simp add: decimal_def foldl_decimal)

lemma FindString_no_digit:
  assumes "\<not> list_ex is_digit str"
  shows "keepNumericRegex_FindString str = []"
proof -
  from assms have dw: "dropWhile (\<lambda>c. \<not> is_digit c) str = []"
    by (simp add: list_ex_iff)
  show ?thesis unfolding keepNumericRegex_FindString_def dw by simp
qed

lemma FindString_run:
  assumes "\<not> list_ex is_digit pre" and "list_all is_digit run" and "run \<noteq> []"
    and "post = [] \<or> \<not> is_digit (hd post)"
  shows "keepNumericRegex_FindString (pre @ run @ post) = run"
proof -
  have "dropWhile (\<lambda>c. \<not> is_digit c) (pre @ run @ post) = run @ post"
    using assms(1,2,3) by (cases run) (auto simp: list_ex_iff dropWhile_append)
  moreover have "takeWhile is_digit (run @ post) = run"
    using assms(2,4) by (cases post) (auto simp: list_all_iff takeWhile_append)
  ultimately show ?thesis by (simp add: keepNumericRegex_FindString_def)
qed

lemma sint_of_nat_64: "n < 2 ^ 63 \<Longrightarrow> sint (of_nat n :: 64 word) = int n"
  by (simp add: signed_of_nat signed_take_bit_int_eq_self_iff)

lemmas toNumber_eval = toNumber_def keepNumericRegex_FindString_def is_digit_def
  formValueAsInt_def decimal_def digit_val_def less_eq_char_def

text \<open>
  C4, as stated: for every string that contains a digit run, \<^verbatim>\<open>toNumber\<close> returns that run
  parsed as a base-10 integer. The result is a Go \<^verbatim>\<open>int\<close>, so this fails for a run of
  twenty nines, whatever \<^verbatim>\<open>formValueAsInt\<close> does with it: no 64-bit value is that number.
\<close>

theorem toNumber_overflow_counterexample:
  "list_ex is_digit ''99999999999999999999'' \<and>
   base10 ''99999999999999999999'' = 99999999999999999999 \<and>
   sint (toNumber ''99999999999999999999'') \<noteq> int (base10 ''99999999999999999999'')"
proof -
  have d: "list_ex is_digit ''99999999999999999999''"
    by (simp add: is_digit_def less_eq_char_def)
  have b: "base10 ''99999999999999999999'' = 99999999999999999999"
    by (simp add: digit_val_def)
  have "sint (toNumber ''99999999999999999999'') < 2 ^ 63"
    using sint_lt [of "toNumber ''99999999999999999999''"] by simp
  then have "sint (toNumber ''99999999999999999999'') \<noteq> 99999999999999999999" by simp
  with d b show ?thesis by simp
qed

text \<open>
  C4, amended: a string without a digit gives 0. A string \<open>pre @ run @ post\<close>, where \<open>pre\<close>
  has no digit, \<open>run\<close> is a non-empty run of digits that ends the string or is followed by
  a character that is no digit, and the base-10 value of \<open>run\<close> is at most \<open>2\<^sup>6\<^sup>3 - 1\<close>,
  gives that value: the first maximal digit run of the string, read in base 10. In
  particular \<^verbatim>\<open>"450 bhp"\<close> gives 450, \<^verbatim>\<open>"N/A"\<close> gives 0 and \<^verbatim>\<open>"12.5s"\<close> gives 12.
\<close>

theorem toNumber_first_digit_run:
  "(\<not> list_ex is_digit str \<longrightarrow> toNumber str = 0) \<and>
   (\<not> list_ex is_digit pre \<and> run \<noteq> [] \<and> list_all is_digit run \<and>
    (post = [] \<or> \<not> is_digit (hd post)) \<and> base10 run < 2 ^ 63 \<longrightarrow>
      sint (toNumber (pre @ run @ post)) = int (base10 run)) \<and>
   toNumber ''450 bhp'' = 450 \<and> toNumber ''N/A'' = 0 \<and> toNumber ''12.5s'' = 12"
proof (intro conjI impI)
  assume "\<not> list_ex is_digit str"
  then show "toNumber str = 0"
    by (simp add: toNumber_def FindString_no_digit formValueAsInt_def)
next
  assume a: "\<not> list_ex is_digit pre \<and> run \<noteq> [] \<and> list_all is_digit run \<and>
    (post = [] \<or> \<not> is_digit (hd post)) \<and> base10 run < 2 ^ 63"
  then have "keepNumericRegex_FindString (pre @ run @ post) = run"
    by (simp add: FindString_run)
  with a show "sint (toNumber (pre @ run @ post)) = int (base10 run)"
    by (simp add: toNumber_def formValueAsInt_def decimal_base10 sint_of_nat_64)
next
  show "toNumber ''450 bhp'' = 450"
    by (simp add: toNumber_eval)
next
  show "toNumber ''N/A'' = 0"
    by (simp add: toNumber_eval)
next
  show "toNumber ''12.5s'' = 12"
    by (simp add: toNumber_eval)
qed

text \<open>C4 on \<^verbatim>\<open>"N/A"\<close> and on \<^verbatim>\<open>"v12.5s"\<close>, split as \<^verbatim>\<open>"v"\<close>, \<^verbatim>\<open>"12"\<close>, \<^verbatim>\<open>".5s"\<close>.\<close>

theorem toNumber_first_digit_run_witness:
  "\<not> list_ex is_digit ''N/A'' \<and> toNumber ''N/A'' = 0 \<and>
   \<not> list_ex is_digit ''v'' \<and> list_all is_digit ''12'' \<and> \<not> is_digit (hd ''.5s'') \<and>
   base10 ''12'' < 2 ^ 63 \<and> sint (toNumber ''v12.5s'') = 12"
  using toNumber_first_digit_run [of "''N/A''" "''v''" "''12''" "''.5s''"]
  by (simp add: is_digit_def less_eq_char_def digit_val_def)

subsection \<open>Loading\<close>

lemma zero_Specs_Numeric: "Numeric zero_CarSpecs = zero_CarSpecsNumeric"
  by (simp add: Numeric_def zero_CarSpecs_def zero_CarSpecsNumeric_def toNumber_def
      keepNumericRegex_FindString_def formValueAsInt_def)

lemma Load_Inr:
  "CarDetails_Load fs carName = Inr cd \<Longrightarrow>
     \<exists>p. ReadFile_ui_car_json fs carName = Inr (JsonObject p) \<and>
       cd = p\<lparr>Specs := Numeric (SpecsFull p)\<rparr>"
  by (auto simp: CarDetails_Load_def split: sum.splits json_file.splits)

lemma LoadCar_Inr:
  "LoadCar prettifyName fs name tyres = Inr car \<Longrightarrow>
     Car.Name car = name \<and> (\<exists>skinFiles. ReadDir_skins fs name = Inr skinFiles)"
  by (auto simp: LoadCar_def Let_def split: sum.splits if_splits)

lemma LoadCar_skins_error:
  "ReadDir_skins fs name = Inl err \<Longrightarrow> LoadCar prettifyName fs name tyres = Inl err"
  by (simp add: LoadCar_def)

text \<open>The example installation, evaluated.\<close>

lemma example_Numeric:
  "Numeric (SpecsFull example_details) =
     zero_CarSpecsNumeric\<lparr>CarSpecsNumeric.BHP := 160, CarSpecsNumeric.Weight := 1025\<rparr>"
  by (simp add: example_details_def Numeric_def zero_CarSpecs_def zero_CarSpecsNumeric_def
      toNumber_eval)

lemma example_carDirectory_abarth:
  "carDirectory example_disk ''abarth500'' =
     Inr \<lparr>skins_dir = Present [(''red'', True), (''notes.txt'', False)],
           ui_car_json = Present (JsonObject example_details)\<rparr>"
  by (simp add: carDirectory_def example_disk_def)

lemma example_carDirectory_bmw:
  "carDirectory example_disk ''bmw_m3'' =
     Inr \<lparr>skins_dir = Present [(''blue'', True)], ui_car_json = Absent\<rparr>"
  by (simp add: carDirectory_def example_disk_def)

lemma example_carDirectory_ghost:
  "carDirectory example_disk ''ghost'' = Inr example_skinless"
  by (simp add: carDirectory_def example_disk_def)

lemma example_Load: "CarDetails_Load example_disk ''abarth500'' = Inr example_loaded"
  by (simp add: CarDetails_Load_def ReadFile_ui_car_json_def example_carDirectory_abarth
      open_node_def example_Numeric example_loaded_def)

lemma example_LoadCar_abarth:
  "LoadCar example_prettifyName example_disk ''abarth500'' Map.empty = Inr example_abarth"
  by (simp add: LoadCar_def ReadDir_skins_def example_carDirectory_abarth open_node_def
      example_Load example_abarth_def tyres_at_def)

lemma example_LoadCar_bmw:
  "LoadCar example_prettifyName example_disk ''bmw_m3'' Map.empty = Inr example_bmw"
  by (simp add: LoadCar_def ReadDir_skins_def CarDetails_Load_def ReadFile_ui_car_json_def
      example_carDirectory_bmw open_node_def os_IsNotExist_def example_bmw_def tyres_at_def
      example_prettifyName_def)

lemma example_ReadDir_skins_ghost: "ReadDir_skins example_disk ''ghost'' = Inl NotExist"
  by (simp add: ReadDir_skins_def example_carDirectory_ghost open_node_def example_skinless_def)

lemma example_LoadCar_ghost:
  "LoadCar example_prettifyName example_disk ''ghost'' tyres = Inl NotExist"
  by (simp add: LoadCar_skins_error example_ReadDir_skins_ghost)

lemma example_state_parts:
  "disk example_state = example_disk" "carIndex example_state = example_index"
  "failing example_index = False"
  by (simp_all add: example_state_def example_index_def)

lemma example_LoadCar_state:
  "LoadCar example_prettifyName (disk example_state) ''abarth500'' Map.empty = Inr example_abarth"
  by (simp add: example_state_parts example_LoadCar_abarth)

text \<open>
  C3: after every load of a Details document that returns no error, the numeric specs
  are \<^verbatim>\<open>SpecsFull.Numeric()\<close>: the loaded document is the persisted one with its numeric
  block overwritten by the value computed from the string block, so the persisted numeric
  form never reaches a caller. The same holds of the Details of every car \<^verbatim>\<open>LoadCar\<close>
  returns, also when it makes them up for a missing file.
\<close>

theorem Load_recomputes_Specs:
  "(CarDetails_Load fs carName = Inr cd \<longrightarrow>
      Specs cd = Numeric (SpecsFull cd) \<and>
      (\<exists>p. persisted fs carName = Some p \<and> cd = p\<lparr>Specs := Numeric (SpecsFull p)\<rparr>)) \<and>
   (LoadCar prettifyName fs carName tyres = Inr car \<longrightarrow>
      Specs (Details car) = Numeric (SpecsFull (Details car)))"
proof (intro conjI impI)
  assume l: "CarDetails_Load fs carName = Inr cd"
  then obtain p where p: "ReadFile_ui_car_json fs carName = Inr (JsonObject p)"
    "cd = p\<lparr>Specs := Numeric (SpecsFull p)\<rparr>"
    using Load_Inr by blast
  from p show "Specs cd = Numeric (SpecsFull cd)" by simp
  from p show "\<exists>p. persisted fs carName = Some p \<and> cd = p\<lparr>Specs := Numeric (SpecsFull p)\<rparr>"
    by (simp add: persisted_def)
next
  assume "LoadCar prettifyName fs carName tyres = Inr car"
  then show "Specs (Details car) = Numeric (SpecsFull (Details car))"
    by (auto simp: LoadCar_def Let_def zero_CarDetails_def zero_Specs_Numeric
        split: sum.splits if_splits dest!: Load_Inr)
qed

text \<open>
  C3 on the example installation: the file of \<^verbatim>\<open>abarth500\<close> persists 999 for the power;
  the loaded document has 160, from \<^verbatim>\<open>"160 bhp"\<close>.
\<close>

theorem Load_recomputes_Specs_witness:
  "CarDetails_Load example_disk ''abarth500'' = Inr example_loaded \<and>
   LoadCar example_prettifyName example_disk ''abarth500'' Map.empty = Inr example_abarth \<and>
   Specs example_loaded = Numeric (SpecsFull example_loaded) \<and>
   (\<exists>p. persisted example_disk ''abarth500'' = Some p \<and>
        example_loaded = p\<lparr>Specs := Numeric (SpecsFull p)\<rparr>) \<and>
   Specs (Details example_abarth) = Numeric (SpecsFull (Details example_abarth))"
  using Load_recomputes_Specs [of example_disk "''abarth500''" example_loaded
      example_prettifyName Map.empty example_abarth]
    example_Load example_LoadCar_abarth
  by simp

text \<open>
  C6: for a name whose directory and \<^verbatim>\<open>skins\<close> subdirectory can be read and whose
  \<^verbatim>\<open>ui_car.json\<close> is absent, \<^verbatim>\<open>LoadCar\<close> returns a car and no error; its Details are the zero
  value except for \<open>Name\<close>, which is the prettified name of the directory.
\<close>

theorem LoadCar_without_ui_car_json:
  assumes "carDirectory fs name = Inr d" and "skins_dir d = Present skinFiles"
    and "ui_car_json d = Absent"
  shows "LoadCar prettifyName fs name tyres =
     Inr \<lparr>Car.Name = name, Skins = map fst (filter snd skinFiles), Tyres = tyres_at tyres name,
       Details = zero_CarDetails\<lparr>CarDetails.Name := prettifyName name True\<rparr>\<rparr>"
  using assms
  by (simp add: LoadCar_def ReadDir_skins_def CarDetails_Load_def ReadFile_ui_car_json_def
      open_node_def os_IsNotExist_def)

text \<open>C6 on the example installation: \<^verbatim>\<open>bmw_m3\<close> has skins and no \<^verbatim>\<open>ui_car.json\<close>.\<close>

theorem LoadCar_without_ui_car_json_witness:
  "carDirectory example_disk ''bmw_m3'' =
     Inr \<lparr>skins_dir = Present [(''blue'', True)], ui_car_json = Absent\<rparr> \<and>
   LoadCar example_prettifyName example_disk ''bmw_m3'' Map.empty =
     Inr \<lparr>Car.Name = ''bmw_m3'', Skins = [''blue''], Tyres = Map.empty,
       Details = zero_CarDetails\<lparr>CarDetails.Name := ''bmw m3''\<rparr>\<rparr>"
  using LoadCar_without_ui_car_json [of example_disk "''bmw_m3''"
      "\<lparr>skins_dir = Present [(''blue'', True)], ui_car_json = Absent\<rparr>" "[(''blue'', True)]"
      example_prettifyName Map.empty]
    example_carDirectory_bmw
  by (simp add: tyres_at_def example_prettifyName_def)

subsection \<open>Listing\<close>

lemma ListCars_loop_members:
  "ListCars_loop prettifyName fs tyres carFiles acc = Inr cars \<Longrightarrow> c \<in> set cars \<Longrightarrow>
     c \<in> set acc \<or> (\<exists>n. LoadCar prettifyName fs n tyres = Inr c)"
proof (induction carFiles arbitrary: acc)
  case Nil
  then show ?case by simp
next
  case (Cons carFile carFiles)
  then show ?case
    by (fastforce split: if_splits sum.splits)
qed

lemma map_of_filter_key:
  "P n \<Longrightarrow> map_of (filter (\<lambda>(k, e). P k) es) n = map_of es n"
  by (induction es) auto

lemma carDirectory_without_skinless:
  "ReadDir_skins fs n \<noteq> Inl NotExist \<Longrightarrow> carDirectory (without_skinless fs) n = carDirectory fs n"
  by (simp add: without_skinless_def carDirectory_def map_of_filter_key [where P = "\<lambda>n. ReadDir_skins fs n \<noteq> Inl NotExist"]
      split: node.splits)

lemma LoadCar_without_skinless:
  assumes "ReadDir_skins fs n \<noteq> Inl NotExist"
  shows "LoadCar prettifyName (without_skinless fs) n tyres = LoadCar prettifyName fs n tyres"
proof -
  have "carDirectory (without_skinless fs) n = carDirectory fs n"
    using assms by (rule carDirectory_without_skinless)
  then have "ReadDir_skins (without_skinless fs) n = ReadDir_skins fs n"
    and "CarDetails_Load (without_skinless fs) n = CarDetails_Load fs n"
    by (simp_all add: ReadDir_skins_def CarDetails_Load_def ReadFile_ui_car_json_def)
  then show ?thesis by (simp only: LoadCar_def)
qed

lemma ListCars_loop_without_skinless:
  "ListCars_loop prettifyName (without_skinless fs) tyres
       (filter (\<lambda>(n, b). ReadDir_skins fs n \<noteq> Inl NotExist) carFiles) acc =
   ListCars_loop prettifyName fs tyres carFiles acc"
proof (induction carFiles arbitrary: acc)
  case Nil
  then show ?case by simp
next
  case (Cons carFile carFiles)
  obtain n b where cf: "carFile = (n, b)" by (cases carFile)
  show ?case
  proof (cases "ReadDir_skins fs n = Inl NotExist")
    case True
    then have "LoadCar prettifyName fs n tyres = Inl NotExist"
      by (rule LoadCar_skins_error)
    with True Cons.IH show ?thesis
      by (simp add: cf os_IsNotExist_def)
  next
    case False
    then have "LoadCar prettifyName (without_skinless fs) n tyres =
        LoadCar prettifyName fs n tyres"
      by (rule LoadCar_without_skinless)
    with False Cons.IH show ?thesis
      by (simp add: cf split: sum.splits)
  qed
qed

lemma ReadDir_cars_without_skinless:
  "ReadDir_cars fs = Inr carFiles \<Longrightarrow>
   ReadDir_cars (without_skinless fs) =
     Inr (filter (\<lambda>(n, b). ReadDir_skins fs n \<noteq> Inl NotExist) carFiles)"
  by (auto simp: ReadDir_cars_def without_skinless_def filter_map comp_def case_prod_unfold
      split: node.splits)

lemma ReadDir_cars_without_skinless_Inl:
  "ReadDir_cars fs = Inl err \<Longrightarrow> without_skinless fs = fs"
  by (auto simp: ReadDir_cars_def without_skinless_def split: node.splits)

lemma tyres_ini_without_skinless: "tyres_ini (without_skinless fs) = tyres_ini fs"
  by (simp add: without_skinless_def split: node.splits)

lemma ListCars_without_skinless:
  "ListCars prettifyName (without_skinless fs) = ListCars prettifyName fs"
proof (cases "ReadDir_cars fs")
  case (Inl err)
  then show ?thesis by (simp add: ReadDir_cars_without_skinless_Inl)
next
  case (Inr carFiles)
  then show ?thesis
    by (simp add: ListCars_def ReadDir_cars_without_skinless tyres_ini_without_skinless
        ListCars_loop_without_skinless split: sum.splits)
qed

lemma ListCars_members:
  assumes "ListCars prettifyName fs = Inr cars" and "c \<in> set cars"
  shows "\<exists>skinFiles. ReadDir_skins fs (Car.Name c) = Inr skinFiles"
proof -
  from assms(1) obtain carFiles tyres loaded where
    l: "ListCars_loop prettifyName fs tyres carFiles [] = Inr loaded"
    and s: "cars = sort_key (PrettyName prettifyName) loaded"
    by (auto simp: ListCars_def split: sum.splits)
  from s assms(2) have "c \<in> set loaded" by simp
  with l obtain n where "LoadCar prettifyName fs n tyres = Inr c"
    using ListCars_loop_members by fastforce
  then show ?thesis using LoadCar_Inr by blast
qed

lemma example_ReadDir_cars:
  "ReadDir_cars example_disk =
     Inr [(''abarth500'', True), (''bmw_m3'', True), (''ghost'', True), (''readme.txt'', False)]"
  by (simp add: ReadDir_cars_def example_disk_def is_Directory_def)

lemma example_PrettyNames:
  "PrettyName example_prettifyName example_abarth = ''abarth500''"
  "PrettyName example_prettifyName example_bmw = ''bmw m3''"
  by (simp_all add: PrettyName_def example_abarth_def example_bmw_def example_prettifyName_def)

lemma example_ListCars:
  "ListCars example_prettifyName example_disk = Inr [example_abarth, example_bmw]"
  by (simp add: ListCars_def example_ReadDir_cars example_disk_def [THEN arg_cong, of tyres_ini]
      example_LoadCar_abarth
      example_LoadCar_bmw example_LoadCar_ghost os_IsNotExist_def example_PrettyNames
      less_eq_char_def)

lemma example_Names:
  "Car.Name example_abarth = ''abarth500''" "Car.Name example_bmw = ''bmw_m3''"
  by (simp_all add: example_abarth_def example_bmw_def)

lemma ListCars_loop_set:
  "ListCars_loop prettifyName fs tyres carFiles acc = Inr cars \<Longrightarrow>
     set cars = set acc \<union>
       {c. \<exists>n. (n, True) \<in> set carFiles \<and> LoadCar prettifyName fs n tyres = Inr c}"
proof (induction carFiles arbitrary: acc)
  case Nil
  then show ?case by simp
next
  case (Cons carFile carFiles)
  obtain n b where cf: "carFile = (n, b)" by (cases carFile)
  show ?case
  proof (cases b)
    case False
    with Cons.prems cf have "ListCars_loop prettifyName fs tyres carFiles acc = Inr cars"
      by simp
    from Cons.IH [OF this] False cf show ?thesis by auto
  next
    case True
    show ?thesis
    proof (cases "LoadCar prettifyName fs n tyres")
      case (Inl err)
      with Cons.prems cf True have "ListCars_loop prettifyName fs tyres carFiles acc = Inr cars"
        by (simp split: if_splits)
      from Cons.IH [OF this] Inl cf show ?thesis by auto
    next
      case (Inr car)
      with Cons.prems cf True
      have "ListCars_loop prettifyName fs tyres carFiles (acc @ [car]) = Inr cars"
        by simp
      from Cons.IH [OF this] Inr cf True show ?thesis by auto
    qed
  qed
qed

lemma example_LoadCar_ktm:
  "LoadCar example_prettifyName example_disk_ktm ''ghost'' Map.empty = Inl NotExist"
  "LoadCar example_prettifyName example_disk_ktm ''ktm-xbow'' Map.empty = Inr example_xbow"
  "LoadCar example_prettifyName example_disk_ktm ''ktm_xbow_r'' Map.empty = Inr example_xbow_r"
  by (simp_all add: LoadCar_def ReadDir_skins_def CarDetails_Load_def ReadFile_ui_car_json_def
      carDirectory_def example_disk_ktm_def example_skinless_def open_node_def os_IsNotExist_def
      example_xbow_def example_xbow_r_def tyres_at_def example_prettifyName_def)

lemma example_ReadDir_cars_ktm:
  "ReadDir_cars example_disk_ktm =
     Inr [(''ghost'', True), (''ktm-xbow'', True), (''ktm_xbow_r'', True)]"
  by (simp add: ReadDir_cars_def example_disk_ktm_def is_Directory_def)

lemma example_ListCars_loop_ktm:
  "ListCars_loop example_prettifyName example_disk_ktm Map.empty
       [(''ghost'', True), (''ktm-xbow'', True), (''ktm_xbow_r'', True)] [] =
     Inr [example_xbow, example_xbow_r]"
  by (simp add: example_LoadCar_ktm os_IsNotExist_def)

lemma example_pretty_ktm:
  "example_prettifyName ''ktm-xbow'' True = ''ktm-xbow''"
  "example_prettifyName ''ktm_xbow_r'' True = ''ktm xbow r''"
  by (simp_all add: example_prettifyName_def)

lemma example_PrettyNames_ktm:
  "PrettyName example_prettifyName example_xbow = ''ktm-xbow''"
  "PrettyName example_prettifyName example_xbow_r = ''ktm xbow r''"
  by (simp_all add: PrettyName_def example_xbow_def example_xbow_r_def example_pretty_ktm)

lemma example_ListCars_ktm:
  "ListCars example_prettifyName example_disk_ktm = Inr [example_xbow_r, example_xbow]"
proof -
  have t: "tyres_ini example_disk_ktm = Inr Map.empty"
    by (simp add: example_disk_ktm_def)
  have "sort_key (PrettyName example_prettifyName) [example_xbow, example_xbow_r] =
      [example_xbow_r, example_xbow]"
    by (simp add: example_PrettyNames_ktm less_eq_char_def)
  then show ?thesis
    by (simp only: ListCars_def example_ReadDir_cars_ktm t example_ListCars_loop_ktm sum.case)
qed

text \<open>
  C5: when \<^verbatim>\<open>ListCars\<close> returns a list, the list is sorted ascending by
  \<^verbatim>\<open>prettifyName(car.Name, true)\<close> under the bytewise order of Go strings; its cars are
  exactly those \<^verbatim>\<open>LoadCar\<close> returns for the directories in \<^verbatim>\<open>content/cars\<close>, so a
  directory that loads is listed; and no car in it is one whose \<^verbatim>\<open>skins\<close> subdirectory is
  missing. Such directories are passed over without an error: on every disk the result
  of \<^verbatim>\<open>ListCars\<close>, error or list, is the result on the disk without them.
\<close>

theorem ListCars_sorted_skips_skinless:
  "(ListCars prettifyName fs = Inr cars \<longrightarrow>
      sorted (map (\<lambda>c. prettifyName (Car.Name c) True) cars) \<and>
      (\<forall>c \<in> set cars. ReadDir_skins fs (Car.Name c) \<noteq> Inl NotExist)) \<and>
   (ListCars prettifyName fs = Inr cars \<and> ReadDir_cars fs = Inr carFiles \<and>
    tyres_ini fs = Inr tyres \<longrightarrow>
      set cars =
        {c. \<exists>n. (n, True) \<in> set carFiles \<and> LoadCar prettifyName fs n tyres = Inr c}) \<and>
   ListCars prettifyName fs = ListCars prettifyName (without_skinless fs)"
proof (intro conjI impI)
  assume l: "ListCars prettifyName fs = Inr cars"
  then obtain loaded where "cars = sort_key (PrettyName prettifyName) loaded"
    by (auto simp: ListCars_def split: sum.splits)
  then have "sorted (map (PrettyName prettifyName) cars)" by simp
  moreover have "PrettyName prettifyName = (\<lambda>c. prettifyName (Car.Name c) True)"
    by (simp add: fun_eq_iff PrettyName_def)
  ultimately show "sorted (map (\<lambda>c. prettifyName (Car.Name c) True) cars)" by simp
  show "\<forall>c \<in> set cars. ReadDir_skins fs (Car.Name c) \<noteq> Inl NotExist"
    using ListCars_members [OF l] by fastforce
next
  assume a: "ListCars prettifyName fs = Inr cars \<and> ReadDir_cars fs = Inr carFiles \<and>
    tyres_ini fs = Inr tyres"
  then obtain loaded where l: "ListCars_loop prettifyName fs tyres carFiles [] = Inr loaded"
    and s: "cars = sort_key (PrettyName prettifyName) loaded"
    by (auto simp: ListCars_def split: sum.splits)
  from ListCars_loop_set [OF l] s
  show "set cars =
        {c. \<exists>n. (n, True) \<in> set carFiles \<and> LoadCar prettifyName fs n tyres = Inr c}"
    by simp
next
  show "ListCars prettifyName fs = ListCars prettifyName (without_skinless fs)"
    by (simp add: ListCars_without_skinless)
qed

text \<open>
  C5 on the second example installation: the directories come as \<^verbatim>\<open>ghost\<close>,
  \<^verbatim>\<open>ktm-xbow\<close>, \<^verbatim>\<open>ktm_xbow_r\<close>; the listing leaves \<^verbatim>\<open>ghost\<close> out and puts
  \<^verbatim>\<open>ktm_xbow_r\<close>, whose pretty name is \<^verbatim>\<open>ktm xbow r\<close>, before \<^verbatim>\<open>ktm-xbow\<close>, against
  the order of the directory names; both cars that load are in it.
\<close>

theorem ListCars_sorted_skips_skinless_witness:
  "ReadDir_cars example_disk_ktm =
     Inr [(''ghost'', True), (''ktm-xbow'', True), (''ktm_xbow_r'', True)] \<and>
   tyres_ini example_disk_ktm = Inr Map.empty \<and>
   ListCars example_prettifyName example_disk_ktm = Inr [example_xbow_r, example_xbow] \<and>
   ReadDir_skins example_disk_ktm ''ghost'' = Inl NotExist \<and>
   Car.Name example_xbow_r = ''ktm_xbow_r'' \<and> Car.Name example_xbow = ''ktm-xbow'' \<and>
   ''ktm-xbow'' < ''ktm_xbow_r'' \<and>
   example_prettifyName ''ktm_xbow_r'' True = ''ktm xbow r'' \<and>
   example_prettifyName ''ktm-xbow'' True = ''ktm-xbow'' \<and>
   ''ktm xbow r'' < ''ktm-xbow'' \<and>
   sorted [example_prettifyName (Car.Name example_xbow_r) True,
     example_prettifyName (Car.Name example_xbow) True] \<and>
   ReadDir_skins example_disk_ktm (Car.Name example_xbow_r) \<noteq> Inl NotExist \<and>
   ReadDir_skins example_disk_ktm (Car.Name example_xbow) \<noteq> Inl NotExist \<and>
   LoadCar example_prettifyName example_disk_ktm ''ktm-xbow'' Map.empty = Inr example_xbow \<and>
   example_xbow \<in> set [example_xbow_r, example_xbow] \<and>
   ListCars example_prettifyName (without_skinless example_disk_ktm) =
     Inr [example_xbow_r, example_xbow]"
proof -
  have r: "ReadDir_cars example_disk_ktm =
     Inr [(''ghost'', True), (''ktm-xbow'', True), (''ktm_xbow_r'', True)]"
    by (rule example_ReadDir_cars_ktm)
  have t: "tyres_ini example_disk_ktm = Inr Map.empty"
    by (simp add: example_disk_ktm_def)
  have l: "ListCars example_prettifyName example_disk_ktm = Inr [example_xbow_r, example_xbow]"
    by (rule example_ListCars_ktm)
  have g: "ReadDir_skins example_disk_ktm ''ghost'' = Inl NotExist"
    by (simp add: ReadDir_skins_def carDirectory_def example_disk_ktm_def example_skinless_def
        open_node_def)
  have n: "Car.Name example_xbow_r = ''ktm_xbow_r''" "Car.Name example_xbow = ''ktm-xbow''"
    by (simp_all add: example_xbow_def example_xbow_r_def)
  have o: "''ktm-xbow'' < ''ktm_xbow_r''" "''ktm xbow r'' < ''ktm-xbow''"
    by (simp_all add: less_char_def)
  note th = ListCars_sorted_skips_skinless [of example_prettifyName example_disk_ktm
      "[example_xbow_r, example_xbow]"
      "[(''ghost'', True), (''ktm-xbow'', True), (''ktm_xbow_r'', True)]" Map.empty]
  from th l have s: "sorted (map (\<lambda>c. example_prettifyName (Car.Name c) True)
      [example_xbow_r, example_xbow])"
    and k: "\<forall>c \<in> set [example_xbow_r, example_xbow].
      ReadDir_skins example_disk_ktm (Car.Name c) \<noteq> Inl NotExist"
    and w: "ListCars example_prettifyName (without_skinless example_disk_ktm) =
      Inr [example_xbow_r, example_xbow]"
    by simp_all
  from th l r t have m: "set [example_xbow_r, example_xbow] =
      {c. \<exists>n. (n, True) \<in> set [(''ghost'', True), (''ktm-xbow'', True), (''ktm_xbow_r'', True)] \<and>
        LoadCar example_prettifyName example_disk_ktm n Map.empty = Inr c}"
    by blast
  have x: "LoadCar example_prettifyName example_disk_ktm ''ktm-xbow'' Map.empty = Inr example_xbow"
    by (rule example_LoadCar_ktm)
  have "example_xbow \<in> {c. \<exists>n. (n, True) \<in>
        set [(''ghost'', True), (''ktm-xbow'', True), (''ktm_xbow_r'', True)] \<and>
        LoadCar example_prettifyName example_disk_ktm n Map.empty = Inr c}"
    using x by auto
  with m have e: "example_xbow \<in> set [example_xbow_r, example_xbow]" by simp
  from s have s': "sorted [example_prettifyName (Car.Name example_xbow_r) True,
     example_prettifyName (Car.Name example_xbow) True]"
    by simp
  from k have k': "ReadDir_skins example_disk_ktm (Car.Name example_xbow_r) \<noteq> Inl NotExist"
    "ReadDir_skins example_disk_ktm (Car.Name example_xbow) \<noteq> Inl NotExist"
    by simp_all
  from r t l g n o s' k' x e w example_pretty_ktm show ?thesis by blast
qed

subsection \<open>Searching\<close>

lemma Search_loop_fails:
  "hit \<in> set hits \<Longrightarrow> LoadCar prettifyName fs hit Map.empty = Inl err \<Longrightarrow>
     \<exists>e h. Search_loop prettifyName fs hits cars = Inl e \<and> h \<in> set hits \<and>
        LoadCar prettifyName fs h Map.empty = Inl e"
proof (induction hits arbitrary: cars)
  case Nil
  then show ?case by simp
next
  case (Cons a hits)
  show ?case
  proof (cases "LoadCar prettifyName fs a Map.empty")
    case (Inl e)
    then show ?thesis by auto
  next
    case (Inr car)
    with Cons.prems have "hit \<in> set hits" by auto
    from Cons.IH [OF this Cons.prems(2), of "cars(a \<mapsto> car)"]
    obtain e h where eh: "Search_loop prettifyName fs hits (cars(a \<mapsto> car)) = Inl e"
      "h \<in> set hits" "LoadCar prettifyName fs h Map.empty = Inl e"
      by blast
    from eh(1) Inr have "Search_loop prettifyName fs (a # hits) cars = Inl e"
      by (simp del: fun_upd_apply)
    with eh(2,3) show ?thesis by (metis list.set_intros(2))
  qed
qed

text \<open>
  C8: when the index answers a search with hits and \<^verbatim>\<open>LoadCar\<close> fails for one of them,
  \<^verbatim>\<open>Search\<close> returns an error, the one \<^verbatim>\<open>LoadCar\<close> gave for a hit, and neither the
  result nor a map of cars: the stale hit is not skipped.
\<close>

theorem Search_fails_on_stale_hit:
  assumes "SearchInContext (carIndex st)
      (NewSearchRequestOptions (if term = [] then MatchAllQuery else QueryStringQuery term)
         searchPageSize from False) = Inr results"
    and "hit \<in> set (Hits results)"
    and "LoadCar prettifyName (disk st) hit Map.empty = Inl err"
  shows "\<exists>e h. Search SearchInContext prettifyName st term from = Inl e \<and>
     h \<in> set (Hits results) \<and> LoadCar prettifyName (disk st) h Map.empty = Inl e"
proof -
  obtain e h where "Search_loop prettifyName (disk st) (Hits results) Map.empty = Inl e"
    "h \<in> set (Hits results)" "LoadCar prettifyName (disk st) h Map.empty = Inl e"
    using Search_loop_fails [OF assms(2,3)] by blast
  with assms(1) show ?thesis by (auto simp: Search_def Let_def)
qed

text \<open>
  C8 on the example installation: the search returns \<^verbatim>\<open>abarth500\<close> and the stale
  \<^verbatim>\<open>ghost\<close>, and \<^verbatim>\<open>Search\<close> returns the error of loading \<^verbatim>\<open>ghost\<close>.
\<close>

theorem Search_fails_on_stale_hit_witness:
  "example_SearchInContext (carIndex example_state)
      (NewSearchRequestOptions MatchAllQuery searchPageSize 0 False) =
     Inr \<lparr>Hits = [''abarth500'', ''ghost''], Total = 2\<rparr> \<and>
   LoadCar example_prettifyName (disk example_state) ''ghost'' Map.empty = Inl NotExist \<and>
   Search example_SearchInContext example_prettifyName example_state [] 0 = Inl NotExist"
proof -
  have d: "disk example_state = example_disk" by (simp add: example_state_def)
  have s: "example_SearchInContext (carIndex example_state)
      (NewSearchRequestOptions (if [] = [] then MatchAllQuery else QueryStringQuery [])
         searchPageSize 0 False) = Inr \<lparr>Hits = [''abarth500'', ''ghost''], Total = 2\<rparr>"
    by (simp add: example_SearchInContext_def)
  have g: "LoadCar example_prettifyName (disk example_state) ''ghost'' Map.empty = Inl NotExist"
    by (simp add: d example_LoadCar_ghost)
  have "\<exists>e h. Search example_SearchInContext example_prettifyName example_state [] 0 = Inl e \<and>
     h \<in> set (Hits \<lparr>Hits = [''abarth500'', ''ghost''], Total = 2\<rparr>) \<and>
     LoadCar example_prettifyName (disk example_state) h Map.empty = Inl e"
    using s g
      Search_fails_on_stale_hit [of example_SearchInContext example_state "[]" 0
        "\<lparr>Hits = [''abarth500'', ''ghost''], Total = 2\<rparr>" "''ghost''"
        example_prettifyName NotExist]
    by simp
  then have "Search example_SearchInContext example_prettifyName example_state [] 0 = Inl NotExist"
    using example_LoadCar_abarth example_LoadCar_ghost by (auto simp: d)
  with s g show ?thesis by simp
qed

subsection \<open>Deleting\<close>

lemma DeleteCar_loop_not_listed:
  "carName \<notin> Car.Name ` set existingCars \<Longrightarrow> DeleteCar_loop fs carName existingCars = Inr fs"
  by (induction existingCars) auto

lemma DeleteCar_loop_listed:
  "carName \<in> Car.Name ` set existingCars \<Longrightarrow>
     DeleteCar_loop fs carName existingCars = os_RemoveAll fs carName"
  by (induction existingCars) auto

lemma DeIndexCar_disk: "disk (snd (DeIndexCar st name)) = disk st"
  by (simp add: DeIndexCar_def bleve_Delete_def)

lemma DeIndexCar_removes:
  "fst (DeIndexCar st name) = None \<Longrightarrow> docs (carIndex (snd (DeIndexCar st name))) name = None"
  by (simp add: DeIndexCar_def bleve_Delete_def split: if_splits)

lemma DeIndexCar_succeeds: "\<not> failing (carIndex st) \<Longrightarrow> fst (DeIndexCar st name) = None"
  by (simp add: DeIndexCar_def bleve_Delete_def)

lemma DeleteCar_removes:
  "fst (DeleteCar prettifyName st carName) = None \<Longrightarrow>
     docs (carIndex (snd (DeleteCar prettifyName st carName))) carName = None"
  by (auto simp: DeleteCar_def DeIndexCar_removes split: sum.splits)

lemma example_RemoveAll:
  "os_RemoveAll example_disk ''abarth500'' = Inr example_disk_without_abarth"
  by (simp add: os_RemoveAll_def example_disk_def example_disk_without_abarth_def)

text \<open>
  C2: when the listing succeeds and the name is not in it, \<^verbatim>\<open>DeleteCar\<close> is exactly
  \<^verbatim>\<open>DeIndexCar\<close>: the disk is left as it was, the absence is no error, and with an index
  that accepts the removal the call returns nil and the index holds no entry for the
  name. When the name is listed and its directory is removed, the removal from the index
  follows as well; and whenever \<^verbatim>\<open>DeleteCar\<close> returns nil the index holds no entry for
  the name.
\<close>

theorem DeleteCar_deindexes_unlisted:
  "(ListCars prettifyName (disk st) = Inr existingCars \<and>
    carName \<notin> Car.Name ` set existingCars \<longrightarrow>
      DeleteCar prettifyName st carName = DeIndexCar st carName \<and>
      disk (snd (DeleteCar prettifyName st carName)) = disk st \<and>
      (\<not> failing (carIndex st) \<longrightarrow>
         fst (DeleteCar prettifyName st carName) = None \<and>
         docs (carIndex (snd (DeleteCar prettifyName st carName))) carName = None)) \<and>
   (ListCars prettifyName (disk st) = Inr existingCars \<and>
    carName \<in> Car.Name ` set existingCars \<and> os_RemoveAll (disk st) carName = Inr fs \<longrightarrow>
      DeleteCar prettifyName st carName = DeIndexCar (st\<lparr>disk := fs\<rparr>) carName) \<and>
   (fst (DeleteCar prettifyName st carName) = None \<longrightarrow>
      docs (carIndex (snd (DeleteCar prettifyName st carName))) carName = None)"
proof (intro conjI impI)
  assume a: "ListCars prettifyName (disk st) = Inr existingCars \<and>
    carName \<notin> Car.Name ` set existingCars"
  then show eq: "DeleteCar prettifyName st carName = DeIndexCar st carName"
    by (simp add: DeleteCar_def DeleteCar_loop_not_listed)
  then show "disk (snd (DeleteCar prettifyName st carName)) = disk st"
    by (simp add: DeIndexCar_disk)
  assume "\<not> failing (carIndex st)"
  then have ok: "fst (DeIndexCar st carName) = None" by (rule DeIndexCar_succeeds)
  with eq show "fst (DeleteCar prettifyName st carName) = None" by simp
  from ok eq show "docs (carIndex (snd (DeleteCar prettifyName st carName))) carName = None"
    by (simp add: DeIndexCar_removes)
next
  assume "ListCars prettifyName (disk st) = Inr existingCars \<and>
    carName \<in> Car.Name ` set existingCars \<and> os_RemoveAll (disk st) carName = Inr fs"
  then show "DeleteCar prettifyName st carName = DeIndexCar (st\<lparr>disk := fs\<rparr>) carName"
    by (simp add: DeleteCar_def DeleteCar_loop_listed)
next
  assume "fst (DeleteCar prettifyName st carName) = None"
  then show "docs (carIndex (snd (DeleteCar prettifyName st carName))) carName = None"
    by (rule DeleteCar_removes)
qed

text \<open>
  C2 on the example installation: \<^verbatim>\<open>ghost\<close> is indexed and not listed, \<^verbatim>\<open>abarth500\<close> is
  listed.
\<close>

theorem DeleteCar_deindexes_unlisted_witness:
  "ListCars example_prettifyName (disk example_state) = Inr [example_abarth, example_bmw] \<and>
   ''ghost'' \<notin> Car.Name ` set [example_abarth, example_bmw] \<and>
   ''abarth500'' \<in> Car.Name ` set [example_abarth, example_bmw] \<and>
   os_RemoveAll (disk example_state) ''abarth500'' = Inr example_disk_without_abarth \<and>
   \<not> failing (carIndex example_state) \<and>
   docs (carIndex example_state) ''ghost'' \<noteq> None \<and>
   DeleteCar example_prettifyName example_state ''ghost'' = DeIndexCar example_state ''ghost'' \<and>
   fst (DeleteCar example_prettifyName example_state ''ghost'') = None \<and>
   disk (snd (DeleteCar example_prettifyName example_state ''ghost'')) = disk example_state \<and>
   docs (carIndex (snd (DeleteCar example_prettifyName example_state ''ghost''))) ''ghost'' = None \<and>
   DeleteCar example_prettifyName example_state ''abarth500'' =
     DeIndexCar (example_state\<lparr>disk := example_disk_without_abarth\<rparr>) ''abarth500''"
proof -
  have l: "ListCars example_prettifyName (disk example_state) = Inr [example_abarth, example_bmw]"
    by (simp add: example_state_parts example_ListCars)
  have g: "''ghost'' \<notin> Car.Name ` set [example_abarth, example_bmw]"
    and a: "''abarth500'' \<in> Car.Name ` set [example_abarth, example_bmw]"
    by (simp_all add: example_Names)
  have r: "os_RemoveAll (disk example_state) ''abarth500'' = Inr example_disk_without_abarth"
    by (simp add: example_state_parts example_RemoveAll)
  have f: "\<not> failing (carIndex example_state)"
    and i: "docs (carIndex example_state) ''ghost'' \<noteq> None"
    by (simp_all add: example_state_parts example_index_def)
  from l g a r f i
    DeleteCar_deindexes_unlisted [of example_prettifyName example_state
      "[example_abarth, example_bmw]" "''ghost''" example_disk_without_abarth]
    DeleteCar_deindexes_unlisted [of example_prettifyName example_state
      "[example_abarth, example_bmw]" "''abarth500''" example_disk_without_abarth]
  show ?thesis by blast
qed

lemma skinless_not_listed:
  assumes "carDirectory fs carName = Inr d" and "skins_dir d = Absent"
    and "ListCars prettifyName fs = Inr existingCars"
  shows "carName \<notin> Car.Name ` set existingCars"
proof
  assume "carName \<in> Car.Name ` set existingCars"
  then obtain c where "c \<in> set existingCars" "Car.Name c = carName" by auto
  with ListCars_members [OF assms(3)] obtain skinFiles
    where "ReadDir_skins fs carName = Inr skinFiles" by blast
  with assms(1,2) show False by (simp add: ReadDir_skins_def open_node_def)
qed

lemma example_LoadCar_broken:
  "LoadCar example_prettifyName example_disk_broken ''abarth500'' Map.empty = Inr example_abarth"
  "LoadCar example_prettifyName example_disk_broken ''bmw_m3'' Map.empty = Inr example_bmw"
  "LoadCar example_prettifyName example_disk_broken ''broken'' Map.empty = Inl SyntaxError"
  by (simp_all add: LoadCar_def ReadDir_skins_def CarDetails_Load_def ReadFile_ui_car_json_def
      carDirectory_def example_disk_broken_def open_node_def os_IsNotExist_def example_Numeric
      example_abarth_def example_loaded_def example_bmw_def tyres_at_def
      example_prettifyName_def)

lemma example_ListCars_broken:
  "ListCars example_prettifyName example_disk_broken = Inl SyntaxError"
proof -
  have r: "ReadDir_cars example_disk_broken =
     Inr [(''abarth500'', True), (''bmw_m3'', True), (''broken'', True), (''ghost'', True),
       (''readme.txt'', False)]"
    by (simp add: ReadDir_cars_def example_disk_broken_def is_Directory_def)
  have t: "tyres_ini example_disk_broken = Inr Map.empty"
    by (simp add: example_disk_broken_def example_disk_def)
  have "ListCars_loop example_prettifyName example_disk_broken Map.empty
     [(''abarth500'', True), (''bmw_m3'', True), (''broken'', True), (''ghost'', True),
       (''readme.txt'', False)] [] = Inl SyntaxError"
    by (simp add: example_LoadCar_broken os_IsNotExist_def)
  then show ?thesis
    by (simp only: ListCars_def r t sum.case)
qed

text \<open>
  C10, as stated: for every name whose directory exists without a \<^verbatim>\<open>skins\<close>
  subdirectory, \<^verbatim>\<open>DeleteCar\<close> removes the index entry and returns without error. On the
  installation with the car \<^verbatim>\<open>broken\<close>, whose \<^verbatim>\<open>ui_car.json\<close> does not decode, the
  listing fails; \<^verbatim>\<open>DeleteCar\<close> of the skinless \<^verbatim>\<open>ghost\<close> returns that error, with an
  index that works, and the entry of \<^verbatim>\<open>ghost\<close> stays in the index.
\<close>

theorem DeleteCar_skinless_listing_error_counterexample:
  "carDirectory (disk example_state_broken) ''ghost'' = Inr example_skinless \<and>
   skins_dir example_skinless = Absent \<and>
   failing (carIndex example_state_broken) = False \<and>
   docs (carIndex example_state_broken) ''ghost'' = Some zero_CarDetails \<and>
   ListCars example_prettifyName (disk example_state_broken) = Inl SyntaxError \<and>
   DeleteCar example_prettifyName example_state_broken ''ghost'' =
     (Some SyntaxError, example_state_broken) \<and>
   fst (DeleteCar example_prettifyName example_state_broken ''ghost'') = Some SyntaxError \<and>
   docs (carIndex (snd (DeleteCar example_prettifyName example_state_broken ''ghost'')))
     ''ghost'' = Some zero_CarDetails"
proof -
  have d: "disk example_state_broken = example_disk_broken"
    and i: "carIndex example_state_broken = example_index"
    by (simp_all add: example_state_broken_def)
  have c: "carDirectory (disk example_state_broken) ''ghost'' = Inr example_skinless"
    by (simp add: d carDirectory_def example_disk_broken_def)
  have k: "skins_dir example_skinless = Absent"
    by (simp add: example_skinless_def)
  have f: "failing (carIndex example_state_broken) = False"
    and e: "docs (carIndex example_state_broken) ''ghost'' = Some zero_CarDetails"
    by (simp_all add: i example_index_def)
  have l: "ListCars example_prettifyName (disk example_state_broken) = Inl SyntaxError"
    by (simp add: d example_ListCars_broken)
  then have x: "DeleteCar example_prettifyName example_state_broken ''ghost'' =
     (Some SyntaxError, example_state_broken)"
    by (simp add: DeleteCar_def)
  from c k f e l x show ?thesis by simp
qed

text \<open>
  C10, amended: for a name whose directory exists in \<^verbatim>\<open>content/cars\<close> without a \<^verbatim>\<open>skins\<close>
  subdirectory, \<^verbatim>\<open>DeleteCar\<close> leaves the disk unchanged in every case, so the directory
  stays: the removal from the disk is never reached. It returns the error of the listing
  when the listing fails and is \<^verbatim>\<open>DeIndexCar\<close> otherwise. When the listing succeeds and
  the index accepts the removal, the call returns nil and the index holds no entry for
  the name.
\<close>

theorem DeleteCar_leaves_skinless_directory:
  assumes "carDirectory (disk st) carName = Inr d" and "skins_dir d = Absent"
  shows "DeleteCar prettifyName st carName =
       (case ListCars prettifyName (disk st) of
          Inl err \<Rightarrow> (Some err, st)
        | Inr existingCars \<Rightarrow> DeIndexCar st carName) \<and>
     disk (snd (DeleteCar prettifyName st carName)) = disk st \<and>
     carDirectory (disk (snd (DeleteCar prettifyName st carName))) carName = Inr d \<and>
     (ListCars prettifyName (disk st) = Inr existingCars \<and> \<not> failing (carIndex st) \<longrightarrow>
        fst (DeleteCar prettifyName st carName) = None \<and>
        docs (carIndex (snd (DeleteCar prettifyName st carName))) carName = None)"
proof -
  have eq: "DeleteCar prettifyName st carName =
       (case ListCars prettifyName (disk st) of
          Inl err \<Rightarrow> (Some err, st)
        | Inr existingCars \<Rightarrow> DeIndexCar st carName)"
  proof (cases "ListCars prettifyName (disk st)")
    case (Inl err)
    then show ?thesis by (simp add: DeleteCar_def)
  next
    case (Inr cars)
    with assms have "carName \<notin> Car.Name ` set cars" by (rule skinless_not_listed)
    with Inr show ?thesis by (simp add: DeleteCar_def DeleteCar_loop_not_listed)
  qed
  then have d: "disk (snd (DeleteCar prettifyName st carName)) = disk st"
    by (simp add: DeIndexCar_disk split: sum.splits)
  have "ListCars prettifyName (disk st) = Inr existingCars \<and> \<not> failing (carIndex st) \<longrightarrow>
        fst (DeleteCar prettifyName st carName) = None \<and>
        docs (carIndex (snd (DeleteCar prettifyName st carName))) carName = None"
    using eq by (simp add: DeIndexCar_succeeds DeIndexCar_removes)
  with eq d assms(1) show ?thesis by simp
qed

text \<open>C10 on the example installation, for the directory \<^verbatim>\<open>ghost\<close>.\<close>

theorem DeleteCar_leaves_skinless_directory_witness:
  "carDirectory (disk example_state) ''ghost'' = Inr example_skinless \<and>
   skins_dir example_skinless = Absent \<and>
   ListCars example_prettifyName (disk example_state) = Inr [example_abarth, example_bmw] \<and>
   \<not> failing (carIndex example_state) \<and>
   DeleteCar example_prettifyName example_state ''ghost'' = DeIndexCar example_state ''ghost'' \<and>
   fst (DeleteCar example_prettifyName example_state ''ghost'') = None \<and>
   carDirectory (disk (snd (DeleteCar example_prettifyName example_state ''ghost''))) ''ghost'' =
     Inr example_skinless \<and>
   docs (carIndex (snd (DeleteCar example_prettifyName example_state ''ghost''))) ''ghost'' = None"
proof -
  have c: "carDirectory (disk example_state) ''ghost'' = Inr example_skinless"
    by (simp add: example_state_parts example_carDirectory_ghost)
  have k: "skins_dir example_skinless = Absent"
    by (simp add: example_skinless_def)
  have l: "ListCars example_prettifyName (disk example_state) = Inr [example_abarth, example_bmw]"
    by (simp add: example_state_parts example_ListCars)
  have f: "\<not> failing (carIndex example_state)"
    by (simp add: example_state_parts)
  have e: "(case ListCars example_prettifyName (disk example_state) of
        Inl err \<Rightarrow> (Some err, example_state)
      | Inr existingCars \<Rightarrow> DeIndexCar example_state ''ghost'') =
      DeIndexCar example_state ''ghost''"
    by (simp add: l)
  note th = DeleteCar_leaves_skinless_directory [OF c k, of example_prettifyName
      "[example_abarth, example_bmw]"]
  from th [unfolded e] c k l f show ?thesis by blast
qed

subsection \<open>Saving, tags and operator fields\<close>

lemma map_of_insort_fresh:
  "map_of es n = None \<Longrightarrow> map_of (insort_key fst (n, v) es) n = Some v"
  by (induction es) auto

lemma map_of_replace:
  "map_of es n = Some e \<Longrightarrow>
     map_of (map (\<lambda>(k, e). if k = n then (k, v) else (k, e)) es) n = Some v"
  by (induction es) (auto split: if_splits)

lemma write_ui_car_json_persisted:
  "write_ui_car_json fs carName cd = Inr fs' \<Longrightarrow> persisted fs' carName = Some cd"
  by (auto simp: write_ui_car_json_def persisted_def ReadFile_ui_car_json_def carDirectory_def
      open_node_def Let_def map_of_insort_fresh map_of_replace
      split: if_splits node.splits option.splits dir_entry.splits)

lemma SaveCarDetails_cases:
  "SaveCarDetails st carName car = (r, st') \<Longrightarrow>
     st' = st \<and> r \<noteq> None \<or>
     persisted (disk st') carName = Some (Details car) \<and>
       (r = None \<longrightarrow> docs (carIndex st') (Car.Name car) = Some (Details car))"
  by (auto simp: SaveCarDetails_def CarDetails_Save_def IndexCar_def bleve_Index_def
      write_ui_car_json_persisted split: sum.splits if_splits)

lemma SaveCarDetails_succeeds:
  "CarDetails_Save (disk st) (Details car) carName = Inr fs \<Longrightarrow> \<not> failing (carIndex st) \<Longrightarrow>
     fst (SaveCarDetails st carName car) = None"
  by (simp add: SaveCarDetails_def IndexCar_def bleve_Index_def)

lemma AddTag_only_Tags:
  "CarDetails_AddTag cd tag = cd\<lparr>Tags := Tags (CarDetails_AddTag cd tag)\<rparr>"
  by (simp add: CarDetails_AddTag_def)

lemma DelTag_only_Tags:
  "CarDetails_DelTag cd tag = cd\<lparr>Tags := Tags (CarDetails_DelTag cd tag)\<rparr>"
  by (simp add: CarDetails_DelTag_def split: option.splits)

lemma example_Save:
  "\<exists>fs. CarDetails_Save example_disk cd ''abarth500'' = Inr fs"
  by (simp add: CarDetails_Save_def write_ui_car_json_def example_disk_def)

lemma example_AddTag_succeeds:
  "fst (AddTag example_prettifyName example_state ''abarth500'' tag) = None"
proof -
  obtain fs where "CarDetails_Save (disk example_state)
      (Details (example_abarth\<lparr>Details := CarDetails_AddTag (Details example_abarth) tag\<rparr>))
      ''abarth500'' = Inr fs"
    using example_Save by (auto simp: example_state_parts)
  then have "fst (SaveCarDetails example_state ''abarth500''
      (example_abarth\<lparr>Details := CarDetails_AddTag (Details example_abarth) tag\<rparr>)) = None"
    by (rule SaveCarDetails_succeeds) (simp add: example_state_parts)
  then show ?thesis
    unfolding AddTag_def example_LoadCar_state by simp
qed

lemma example_DelTag_succeeds:
  "fst (DelTag example_prettifyName example_state ''abarth500'' tag) = None"
proof -
  obtain fs where "CarDetails_Save (disk example_state)
      (Details (example_abarth\<lparr>Details := CarDetails_DelTag (Details example_abarth) tag\<rparr>))
      ''abarth500'' = Inr fs"
    using example_Save by (auto simp: example_state_parts)
  then have "fst (SaveCarDetails example_state ''abarth500''
      (example_abarth\<lparr>Details := CarDetails_DelTag (Details example_abarth) tag\<rparr>)) = None"
    by (rule SaveCarDetails_succeeds) (simp add: example_state_parts)
  then show ?thesis
    unfolding DelTag_def example_LoadCar_state by simp
qed

lemma example_Tags:
  "Tags (CarDetails_AddTag example_loaded ''rally'') = [''fwd'', ''small'', ''rally'']"
  "Tags (CarDetails_DelTag example_loaded ''fwd'') = [''small'']"
  by (simp_all add: CarDetails_AddTag_def CarDetails_DelTag_def example_loaded_def
      example_details_def)

lemma tag_operations_load_error:
  "LoadCar prettifyName (disk st) carName Map.empty = Inl err \<Longrightarrow>
     AddTag prettifyName st carName tag = (Some err, st) \<and>
     DelTag prettifyName st carName tag = (Some err, st)"
  by (simp add: AddTag_def DelTag_def)

text \<open>
  C9: let \<^verbatim>\<open>LoadCar\<close> return \<open>car\<close> for the name. When \<^verbatim>\<open>AddTag\<close> or \<^verbatim>\<open>DelTag\<close> returns
  nil, the document then on disk is \<open>Details car\<close> with the \<open>Tags\<close> field replaced by the
  tags after \<^verbatim>\<open>CarDetails.AddTag\<close> or \<^verbatim>\<open>CarDetails.DelTag\<close>: every other field is
  written back as loaded. Whatever the call returns, either the disk is as before or the
  document on disk differs from \<open>Details car\<close> in \<open>Tags\<close> at most. When \<^verbatim>\<open>LoadCar\<close>
  fails, both return its error and write nothing (\<open>tag_operations_load_error\<close>).
\<close>

theorem tag_operations_change_only_Tags:
  assumes "LoadCar prettifyName (disk st) carName Map.empty = Inr car"
  shows
    "(fst (AddTag prettifyName st carName tag) = None \<longrightarrow>
        persisted (disk (snd (AddTag prettifyName st carName tag))) carName =
          Some ((Details car)\<lparr>Tags := Tags (CarDetails_AddTag (Details car) tag)\<rparr>)) \<and>
     (fst (DelTag prettifyName st carName tag) = None \<longrightarrow>
        persisted (disk (snd (DelTag prettifyName st carName tag))) carName =
          Some ((Details car)\<lparr>Tags := Tags (CarDetails_DelTag (Details car) tag)\<rparr>)) \<and>
     (disk (snd (AddTag prettifyName st carName tag)) = disk st \<or>
      (\<exists>tags. persisted (disk (snd (AddTag prettifyName st carName tag))) carName =
          Some ((Details car)\<lparr>Tags := tags\<rparr>))) \<and>
     (disk (snd (DelTag prettifyName st carName tag)) = disk st \<or>
      (\<exists>tags. persisted (disk (snd (DelTag prettifyName st carName tag))) carName =
          Some ((Details car)\<lparr>Tags := tags\<rparr>)))"
proof -
  let ?a = "car\<lparr>Details := CarDetails_AddTag (Details car) tag\<rparr>"
  let ?d = "car\<lparr>Details := CarDetails_DelTag (Details car) tag\<rparr>"
  have a: "AddTag prettifyName st carName tag = SaveCarDetails st carName ?a"
    and d: "DelTag prettifyName st carName tag = SaveCarDetails st carName ?d"
    using assms by (simp_all add: AddTag_def DelTag_def)
  have da: "Details ?a = (Details car)\<lparr>Tags := Tags (CarDetails_AddTag (Details car) tag)\<rparr>"
    using AddTag_only_Tags [of "Details car" tag] by simp
  have dd: "Details ?d = (Details car)\<lparr>Tags := Tags (CarDetails_DelTag (Details car) tag)\<rparr>"
    using DelTag_only_Tags [of "Details car" tag] by simp
  obtain ra sa where sa: "SaveCarDetails st carName ?a = (ra, sa)" by (cases "SaveCarDetails st carName ?a")
  obtain rd sd where sd: "SaveCarDetails st carName ?d = (rd, sd)" by (cases "SaveCarDetails st carName ?d")
  from SaveCarDetails_cases [OF sa] SaveCarDetails_cases [OF sd]
  show ?thesis unfolding a d sa sd da dd by auto
qed

text \<open>
  C9 on the example installation: adding the tag \<^verbatim>\<open>rally\<close> to \<^verbatim>\<open>abarth500\<close> and
  deleting its tag \<^verbatim>\<open>fwd\<close>.
\<close>

theorem tag_operations_change_only_Tags_witness:
  "LoadCar example_prettifyName (disk example_state) ''abarth500'' Map.empty = Inr example_abarth \<and>
   fst (AddTag example_prettifyName example_state ''abarth500'' ''rally'') = None \<and>
   persisted (disk (snd (AddTag example_prettifyName example_state ''abarth500'' ''rally'')))
       ''abarth500'' = Some (example_loaded\<lparr>Tags := [''fwd'', ''small'', ''rally'']\<rparr>) \<and>
   fst (DelTag example_prettifyName example_state ''abarth500'' ''fwd'') = None \<and>
   persisted (disk (snd (DelTag example_prettifyName example_state ''abarth500'' ''fwd'')))
       ''abarth500'' = Some (example_loaded\<lparr>Tags := [''small'']\<rparr>)"
proof -
  have d: "Details example_abarth = example_loaded" by (simp add: example_abarth_def)
  note th = tag_operations_change_only_Tags [OF example_LoadCar_state, unfolded d]
  from th [of "''rally''", unfolded example_Tags] th [of "''fwd''", unfolded example_Tags]
    example_AddTag_succeeds [of "''rally''"] example_DelTag_succeeds [of "''fwd''"]
    example_LoadCar_state
  show ?thesis by blast
qed

lemma tag_operations_index:
  assumes "LoadCar prettifyName (disk st) carName Map.empty = Inr car"
  shows "(fst (AddTag prettifyName st carName tag) = None \<longrightarrow>
       docs (carIndex (snd (AddTag prettifyName st carName tag))) carName =
         Some (CarDetails_AddTag (Details car) tag)) \<and>
     (fst (DelTag prettifyName st carName tag) = None \<longrightarrow>
       docs (carIndex (snd (DelTag prettifyName st carName tag))) carName =
         Some (CarDetails_DelTag (Details car) tag))"
proof -
  have n: "Car.Name car = carName" using assms LoadCar_Inr by blast
  let ?a = "car\<lparr>Details := CarDetails_AddTag (Details car) tag\<rparr>"
  let ?d = "car\<lparr>Details := CarDetails_DelTag (Details car) tag\<rparr>"
  have a: "AddTag prettifyName st carName tag = SaveCarDetails st carName ?a"
    and d: "DelTag prettifyName st carName tag = SaveCarDetails st carName ?d"
    using assms by (simp_all add: AddTag_def DelTag_def)
  obtain ra sa where sa: "SaveCarDetails st carName ?a = (ra, sa)"
    by (cases "SaveCarDetails st carName ?a")
  obtain rd sd where sd: "SaveCarDetails st carName ?d = (rd, sd)"
    by (cases "SaveCarDetails st carName ?d")
  from SaveCarDetails_cases [OF sa] SaveCarDetails_cases [OF sd] n
  show ?thesis unfolding a d sa sd by auto
qed

lemma UpdateCarMetadata_index:
  "carIndex (snd (UpdateCarMetadata prettifyName st carName notes downloadURL)) = carIndex st"
  by (simp add: UpdateCarMetadata_def split: sum.splits)

lemma UpdateCarMetadata_persisted:
  "LoadCar prettifyName (disk st) carName Map.empty = Inr car \<Longrightarrow>
   fst (UpdateCarMetadata prettifyName st carName notes downloadURL) = None \<Longrightarrow>
     persisted (disk (snd (UpdateCarMetadata prettifyName st carName notes downloadURL))) carName =
       Some ((Details car)\<lparr>Notes := notes, DownloadURL := downloadURL\<rparr>)"
  by (auto simp: UpdateCarMetadata_def CarDetails_Save_def write_ui_car_json_persisted
      split: sum.splits)

text \<open>
  C1 asks that every operation that changes Details and succeeds at the write also puts
  the Details into the index. \<^verbatim>\<open>SaveCarDetails\<close>, \<^verbatim>\<open>AddTag\<close> and \<^verbatim>\<open>DelTag\<close> do
  (\<open>SaveCarDetails_cases\<close>, \<open>tag_operations_index\<close>); \<^verbatim>\<open>UpdateCarMetadata\<close> never
  touches the index (\<open>UpdateCarMetadata_index\<close>). On the example installation, whose
  index is in step with the disk, it returns nil, the document on disk has the new notes
  and download URL, and the index still holds the document without them.
\<close>

theorem UpdateCarMetadata_leaves_index_stale:
  "docs (carIndex example_state) ''abarth500'' = Some example_loaded \<and>
   LoadCar example_prettifyName (disk example_state) ''abarth500'' Map.empty = Inr example_abarth \<and>
   Details example_abarth = example_loaded \<and>
   fst (UpdateCarMetadata example_prettifyName example_state ''abarth500''
          ''sold out'' ''http://example.org/abarth500.zip'') = None \<and>
   persisted (disk (snd (UpdateCarMetadata example_prettifyName example_state ''abarth500''
          ''sold out'' ''http://example.org/abarth500.zip''))) ''abarth500'' =
     Some (example_loaded\<lparr>Notes := ''sold out'',
       DownloadURL := ''http://example.org/abarth500.zip''\<rparr>) \<and>
   docs (carIndex (snd (UpdateCarMetadata example_prettifyName example_state ''abarth500''
          ''sold out'' ''http://example.org/abarth500.zip''))) ''abarth500'' =
     Some example_loaded \<and>
   Notes example_loaded \<noteq> ''sold out''"
proof -
  let ?u = "UpdateCarMetadata example_prettifyName example_state ''abarth500''
          ''sold out'' ''http://example.org/abarth500.zip''"
  have i: "docs (carIndex example_state) ''abarth500'' = Some example_loaded"
    by (simp add: example_state_parts example_index_def)
  have d: "Details example_abarth = example_loaded" by (simp add: example_abarth_def)
  obtain fs where "CarDetails_Save (disk example_state)
      ((Details example_abarth)\<lparr>Notes := ''sold out'',
         DownloadURL := ''http://example.org/abarth500.zip''\<rparr>) ''abarth500'' = Inr fs"
    using example_Save by (auto simp: example_state_parts)
  then have ok: "fst ?u = None"
    by (simp add: UpdateCarMetadata_def example_LoadCar_state)
  have p: "persisted (disk (snd ?u)) ''abarth500'' =
     Some (example_loaded\<lparr>Notes := ''sold out'',
       DownloadURL := ''http://example.org/abarth500.zip''\<rparr>)"
    using UpdateCarMetadata_persisted [OF example_LoadCar_state ok] by (simp add: d)
  have s: "docs (carIndex (snd ?u)) ''abarth500'' = Some example_loaded"
    by (simp add: UpdateCarMetadata_index i)
  have n: "Notes example_loaded \<noteq> ''sold out''"
    by (simp add: example_loaded_def example_details_def zero_CarDetails_def)
  from i example_LoadCar_state d ok p s n show ?thesis by blast
qed

subsection \<open>Pagination\<close>

lemma round_half_even_error: "\<bar>of_int (round_half_even x) - x\<bar> \<le> 1 / 2"
proof -
  have "of_int \<lfloor>x\<rfloor> \<le> x" "x < of_int \<lfloor>x\<rfloor> + 1" by linarith+
  then show ?thesis
    by (auto simp: round_half_even_def Let_def abs_le_iff)
qed

lemma round_half_even_of_int: "round_half_even (of_int n) = n"
  by (simp add: round_half_even_def)

lemma two_powi_diff:
  assumes "0 \<le> a" and "0 \<le> b"
  shows "(2::rat) powi (a - b) = 2 ^ nat a / 2 ^ nat b"
proof -
  have "(2::rat) powi (a - b) = 2 powi a / 2 powi b" by (simp add: power_int_diff)
  moreover have "(2::rat) powi a = 2 ^ nat a" "(2::rat) powi b = 2 ^ nat b"
    using assms by (simp_all add: power_int_def)
  ultimately show ?thesis by simp
qed

lemma float64_exponent_bounds:
  assumes "0 < x"
  shows "2 powi (float64_exponent x) \<le> x" and "x < 2 powi (float64_exponent x + 1)"
proof -
  define s where "s = bitlen \<lceil>1 / x\<rceil>"
  define n where "n = \<lfloor>x * 2 ^ nat s\<rfloor>"
  have e: "float64_exponent x = bitlen n - 1 - s"
    by (simp add: float64_exponent_def s_def n_def Let_def)
  from assms have "0 < 1 / x" by simp
  then have c: "0 < \<lceil>1 / x\<rceil>" by (simp add: ceiling_less_iff)
  have s0: "0 \<le> s" by (simp add: s_def bitlen_nonneg)
  from bitlen_bounds [OF c] have "\<lceil>1 / x\<rceil> < 2 ^ nat s" by (simp add: s_def)
  then have "(of_int \<lceil>1 / x\<rceil> :: rat) < of_int (2 ^ nat s)" by (simp only: of_int_less_iff)
  then have "(of_int \<lceil>1 / x\<rceil> :: rat) < 2 ^ nat s" by simp
  moreover have "1 / x \<le> of_int \<lceil>1 / x\<rceil>" by (rule le_of_int_ceiling)
  ultimately have "1 / x < 2 ^ nat s" by (rule le_less_trans [rotated])
  with assms have y1: "1 < x * 2 ^ nat s" by (simp add: field_simps)
  then have n1: "0 < n" by (simp add: n_def)
  from bitlen_bounds [OF n1] have b: "2 ^ nat (bitlen n - 1) \<le> n" "n < 2 ^ nat (bitlen n)"
    by simp_all
  have b1: "1 \<le> bitlen n" using n1 by (simp add: bitlen_alt_def)
  have "(of_int (2 ^ nat (bitlen n - 1)) :: rat) \<le> of_int n" using b(1) by (simp only: of_int_le_iff)
  then have "(2::rat) ^ nat (bitlen n - 1) \<le> of_int n" by simp
  moreover have "of_int n \<le> x * 2 ^ nat s" by (simp add: n_def)
  ultimately have lo: "2 ^ nat (bitlen n - 1) \<le> x * 2 ^ nat s" by (rule order_trans)
  have "n + 1 \<le> 2 ^ nat (bitlen n)" using b(2) by simp
  then have "(of_int (n + 1) :: rat) \<le> of_int (2 ^ nat (bitlen n))" by (simp only: of_int_le_iff)
  then have "(of_int (n + 1) :: rat) \<le> 2 ^ nat (bitlen n)" by simp
  moreover have "x * 2 ^ nat s < of_int (n + 1)" unfolding n_def by linarith
  ultimately have hi: "x * 2 ^ nat s < 2 ^ nat (bitlen n)" by (rule less_le_trans [rotated])
  have p1: "(2::rat) powi (bitlen n - 1 - s) = 2 ^ nat (bitlen n - 1) / 2 ^ nat s"
    using b1 s0 by (simp add: two_powi_diff)
  have "(2::rat) powi (bitlen n - s) = 2 ^ nat (bitlen n) / 2 ^ nat s"
    using b1 s0 by (simp add: two_powi_diff)
  then have p2: "(2::rat) powi (bitlen n - 1 - s + 1) = 2 ^ nat (bitlen n) / 2 ^ nat s"
    by (simp add: algebra_simps)
  show "2 powi (float64_exponent x) \<le> x"
    unfolding e p1 using lo by (simp add: field_simps)
  show "x < 2 powi (float64_exponent x + 1)"
    unfolding e p2 using hi by (simp add: field_simps)
qed

lemma float64_round_error:
  assumes "0 < x"
  shows "\<bar>float64_round x - x\<bar> \<le> 2 powi (float64_exponent x - 53)"
proof -
  define e where "e = float64_exponent x - 52"
  define m where "m = round_half_even (x / 2 powi e)"
  have p: "(0::rat) < 2 powi e" by simp
  have r: "float64_round x = of_int m * 2 powi e"
    using assms by (simp add: float64_round_def e_def m_def Let_def)
  have "\<bar>of_int m - x / 2 powi e\<bar> \<le> 1 / 2"
    unfolding m_def by (rule round_half_even_error)
  then have "\<bar>of_int m - x / 2 powi e\<bar> * 2 powi e \<le> 1 / 2 * 2 powi e"
    using p by (simp only: mult_le_cancel_right_pos)
  moreover have "\<bar>of_int m - x / 2 powi e\<bar> * 2 powi e = \<bar>of_int m * 2 powi e - x\<bar>"
  proof -
    have "\<bar>of_int m - x / 2 powi e\<bar> * 2 powi e = \<bar>(of_int m - x / 2 powi e) * 2 powi e\<bar>"
      using p by (simp add: abs_mult)
    also have "(of_int m - x / 2 powi e) * 2 powi e = of_int m * 2 powi e - x"
      using p by (simp add: field_simps)
    finally show ?thesis .
  qed
  moreover have "1 / 2 * (2::rat) powi e = 2 powi (float64_exponent x - 53)"
    by (simp add: e_def power_int_diff)
  ultimately show ?thesis by (simp add: r)
qed

lemma float64_round_of_nat:
  assumes "0 < n" and "n < 2 ^ 53"
  shows "float64_round (of_nat n) = of_nat n"
proof -
  define x :: rat where "x = of_nat n"
  define e where "e = float64_exponent x - 52"
  have x0: "0 < x" using assms by (simp add: x_def)
  have "x < 2 ^ 53" using assms(2) unfolding x_def
    by (metis of_nat_less_iff of_nat_numeral of_nat_power)
  with float64_exponent_bounds(1) [OF x0] have "(2::rat) powi float64_exponent x < 2 powi 53"
    by simp
  then have "float64_exponent x < 53"
    by (rule power_int_le_imp_less_exp [rotated]) simp_all
  then have e0: "e \<le> 0" by (simp add: e_def)
  then have "x / 2 powi e = of_int (int n * 2 ^ nat (- e))"
    by (simp add: x_def power_int_def field_simps)
  then have "round_half_even (x / 2 powi e) = int n * 2 ^ nat (- e)"
    by (simp only: round_half_even_of_int)
  then have "float64_round x = of_int (int n * 2 ^ nat (- e)) * 2 powi e"
    using x0 by (simp add: float64_round_def e_def Let_def)
  also have "\<dots> = x" using e0 by (simp add: x_def power_int_def field_simps)
  finally show ?thesis by (simp add: x_def)
qed

lemma float64_round_small_nat:
  assumes "n < 2 ^ 53"
  shows "float64_round (of_nat n) = of_nat n"
proof (cases "n = 0")
  case True
  then show ?thesis by (simp add: float64_round_def)
next
  case False
  then have "0 < n" by simp
  then show ?thesis using assms by (rule float64_round_of_nat)
qed

lemma ceiling_float64_round_quotient:
  assumes "n < 2 ^ 53"
  shows "\<lceil>float64_round (of_nat n / 50)\<rceil> = \<lceil>(of_nat n :: rat) / 50\<rceil>"
proof (cases "50 dvd n")
  case True
  then obtain m where m: "n = 50 * m" by (rule dvdE)
  with assms have "m < 2 ^ 53" by simp
  then have "float64_round (of_nat m) = of_nat m" by (rule float64_round_small_nat)
  moreover have "(of_nat n :: rat) / 50 = of_nat m" by (simp add: m)
  ultimately show ?thesis by simp
next
  case False
  define x :: rat where "x = of_nat n / 50"
  define k where "k = int (n div 50)"
  define r where "r = n mod 50"
  have "r < 50" by (simp add: r_def)
  moreover from False have "r \<noteq> 0" by (simp add: r_def dvd_eq_mod_eq_0)
  ultimately have r: "1 \<le> r" "r \<le> 49" by simp_all
  have "n = 50 * (n div 50) + r" by (simp add: r_def)
  then have "(of_nat n :: rat) = 50 * of_nat (n div 50) + of_nat r"
    by (metis of_nat_add of_nat_mult of_nat_numeral)
  then have xk: "x = of_int k + of_nat r / 50"
    by (simp add: x_def k_def field_simps)
  have r1: "(1::rat) \<le> of_nat r" "(of_nat r :: rat) \<le> 49"
    using r by (simp_all add: Suc_le_eq)
  from xk r1 have lo: "of_int k + 1 / 50 \<le> x" and hi: "x \<le> of_int k + 49 / 50"
    by simp_all
  have k0: "0 \<le> k" by (simp add: k_def)
  then have "(0::rat) \<le> of_int k" by simp
  with lo have x0: "0 < x" by linarith
  have "(of_nat n :: rat) < 2 ^ 53" using assms
    by (metis of_nat_less_iff of_nat_numeral of_nat_power)
  then have "x < 2 ^ 48" by (simp add: x_def)
  with float64_exponent_bounds(1) [OF x0] have "(2::rat) powi float64_exponent x < 2 powi 48"
    by simp
  then have "float64_exponent x < 48"
    by (rule power_int_le_imp_less_exp [rotated]) simp_all
  then have "float64_exponent x - 53 \<le> - 6" by simp
  then have "(2::rat) powi (float64_exponent x - 53) \<le> 2 powi (- 6)"
    by (rule power_int_increasing) simp
  also have "(2::rat) powi (- 6) = 1 / 64" by (simp add: power_int_minus field_simps)
  finally have "\<bar>float64_round x - x\<bar> \<le> 1 / 64"
    using float64_round_error [OF x0] by linarith
  then have "x - 1 / 64 \<le> float64_round x" "float64_round x \<le> x + 1 / 64"
    by (simp_all only: abs_le_iff) linarith+
  with lo hi have "of_int k < float64_round x" "float64_round x < of_int k + 1"
    by linarith+
  then have "\<lceil>float64_round x\<rceil> = k + 1"
    by (intro ceiling_unique) simp_all
  moreover from lo hi have "\<lceil>x\<rceil> = k + 1"
    by (intro ceiling_unique) simp_all
  ultimately show ?thesis by (simp add: x_def)
qed

lemma float64_of_int_searchPageSize: "float64_of_int searchPageSize = 50"
  using float64_round_small_nat [of 50]
  by (simp add: float64_of_int_def searchPageSize_def)

lemma numPages_small:
  assumes "unat totalHits < 2 ^ 53"
  shows "sint (numPages totalHits) = \<lceil>(of_nat (unat totalHits) :: rat) / 50\<rceil>"
proof -
  define n where "n = unat totalHits"
  define c where "c = \<lceil>(of_nat n :: rat) / 50\<rceil>"
  have n: "n < 2 ^ 53" using assms by (simp add: n_def)
  have "float64_of_uint64 totalHits = of_nat n"
    unfolding float64_of_uint64_def n_def [symmetric] using n by (rule float64_round_small_nat)
  then have q: "float64_div (float64_of_uint64 totalHits) (float64_of_int searchPageSize) =
      float64_round (of_nat n / 50)"
    by (simp add: float64_div_def float64_of_int_searchPageSize)
  have c0: "0 \<le> c" unfolding c_def by (simp add: ceiling_le_iff [symmetric] zero_le_ceiling)
  have "(of_nat n :: rat) / 50 \<le> of_nat n" by simp
  then have "c \<le> \<lceil>(of_nat n :: rat)\<rceil>" unfolding c_def by (rule ceiling_mono)
  then have "c \<le> int n" by simp
  with n have c1: "c < 2 ^ 63" by simp
  have "numPages totalHits = word_of_int c"
    using c0 by (simp add: numPages_def q math_Ceil_def int_of_float64_def
        ceiling_float64_round_quotient [OF n] c_def)
  moreover have "sint (word_of_int c :: 64 word) = c"
    using c0 c1 by (simp add: sint_sbintrunc' signed_take_bit_int_eq_self_iff)
  ultimately show ?thesis by (simp add: c_def n_def)
qed

lemma sint_times_searchPageSize:
  assumes "0 \<le> sint p" and "sint p \<le> 184467440737095516"
  shows "sint (p * searchPageSize) = sint p * 50"
proof -
  have "sint (p * searchPageSize) = signed_take_bit 63 (sint p * 50)"
    by (simp add: sint_word_ariths searchPageSize_def)
  also have "\<dots> = sint p * 50"
    using assms by (simp add: signed_take_bit_int_eq_self_iff)
  finally show ?thesis .
qed

lemma Search_only_request:
  "Search SearchInContext prettifyName st searchTerm from =
   Search (\<lambda>idx request.
       if Size request = searchPageSize \<and> From request = from
       then SearchInContext idx request else Inl IndexError) prettifyName st searchTerm from"
  by (simp add: Search_def NewSearchRequestOptions_def)

lemma numPages_125: "numPages 125 = 3"
  by code_simp

lemma formValueAsInt_big: "formValueAsInt ''4611686018427387904'' = 4611686018427387904"
  by (simp add: toNumber_eval)

lemma big_page_offset:
  "sint ((4611686018427387904 :: go_int) * searchPageSize) = - 9223372036854775808"
  by (simp add: searchPageSize_def)

lemma float64_round_big: "float64_round 9007199254741001 = 9007199254741000"
  by code_simp

lemma numPages_big: "numPages 9007199254741001 = 180143985094820"
proof -
  have "float64_of_uint64 9007199254741001 = 9007199254741000"
    by (simp add: float64_of_uint64_def float64_round_big)
  moreover have "float64_round 180143985094820 = 180143985094820"
    using float64_round_small_nat [of 180143985094820] by simp
  ultimately have "float64_div (float64_of_uint64 9007199254741001)
      (float64_of_int searchPageSize) = 180143985094820"
    by (simp add: float64_div_def float64_of_int_searchPageSize)
  then show ?thesis
    by (simp add: numPages_def math_Ceil_def int_of_float64_def)
qed

text \<open>
  C7, as stated: for every page number \<open>p\<close> and total hit count the offset passed to the
  index is \<open>p * 50\<close> and the number of pages is the ceiling of the total over 50. The page
  parameter \<^verbatim>\<open>4611686018427387904\<close> is the page number \<open>2\<^sup>6\<^sup>2\<close>; its product with 50
  wraps, and the index is asked for the offset \<open>-2\<^sup>6\<^sup>3\<close> (the example index answers no
  other request). For its total of 9007199254741001 hits, which \<^verbatim>\<open>float64\<close> rounds to
  9007199254741000, the handler reports 180143985094820 pages, one less than the ceiling.
\<close>

theorem list_pagination_counterexample:
  "formValueAsInt ''4611686018427387904'' = 4611686018427387904 \<and>
   CarsHandler_list example_SearchInContext_probe example_prettifyName example_state []
       4611686018427387904 = Template example_probe_page \<and>
   sint ((4611686018427387904 :: go_int) * searchPageSize) = - 9223372036854775808 \<and>
   sint ((4611686018427387904 :: go_int) * searchPageSize) \<noteq>
     sint (4611686018427387904 :: go_int) * 50 \<and>
   sint (NumPages example_probe_page) = 180143985094820 \<and>
   \<lceil>(of_nat (unat (Total (Results example_probe_page))) :: rat) / 50\<rceil> = 180143985094821 \<and>
   sint (NumPages example_probe_page) \<noteq>
     \<lceil>(of_nat (unat (Total (Results example_probe_page))) :: rat) / 50\<rceil>"
proof -
  have f: "formValueAsInt ''4611686018427387904'' = 4611686018427387904"
    by (rule formValueAsInt_big)
  have "Search example_SearchInContext_probe example_prettifyName example_state []
      ((4611686018427387904 :: go_int) * searchPageSize) =
      Inr (\<lparr>Hits = [], Total = 9007199254741001\<rparr>, Map.empty)"
    by (simp add: Search_def NewSearchRequestOptions_def example_SearchInContext_probe_def
        big_page_offset)
  then have l: "CarsHandler_list example_SearchInContext_probe example_prettifyName
      example_state [] 4611686018427387904 = Template example_probe_page"
    by (simp add: CarsHandler_list_def numPages_big searchPageSize_def example_probe_page_def)
  have o: "sint ((4611686018427387904 :: go_int) * searchPageSize) = - 9223372036854775808"
    by (rule big_page_offset)
  then have o': "sint ((4611686018427387904 :: go_int) * searchPageSize) \<noteq>
     sint (4611686018427387904 :: go_int) * 50"
    by simp
  have n: "sint (NumPages example_probe_page) = 180143985094820"
    by (simp add: example_probe_page_def)
  have "\<lceil>(9007199254741001 :: rat) / 50\<rceil> = 180143985094821"
    by (rule ceiling_unique) simp_all
  then have c: "\<lceil>(of_nat (unat (Total (Results example_probe_page))) :: rat) / 50\<rceil> =
      180143985094821"
    by (simp add: example_probe_page_def)
  from n c have n': "sint (NumPages example_probe_page) \<noteq>
     \<lceil>(of_nat (unat (Total (Results example_probe_page))) :: rat) / 50\<rceil>"
    by simp
  from f l o o' n c n' show ?thesis by blast
qed

text \<open>
  C7, amended: the one request \<^verbatim>\<open>list\<close> sends to the index has the size 50 and, as its
  offset, the Go product of the page number and 50 (the handler behaves the same with an
  index that rejects every other request); for a page number \<open>p\<close> with
  \<open>0 \<le> p \<le> 184467440737095516\<close> that product is the integer \<open>p * 50\<close>. When the page is
  rendered and the total hit count is below \<open>2\<^sup>5\<^sup>3\<close>, the number of pages is the ceiling of
  the total over 50. The page size is 50, and 125 hits give 3 pages.
\<close>

theorem list_pagination:
  "CarsHandler_list SearchInContext prettifyName st searchTerm page =
     CarsHandler_list (\<lambda>idx request.
         if Size request = searchPageSize \<and> From request = page * searchPageSize
         then SearchInContext idx request else Inl IndexError) prettifyName st searchTerm page \<and>
   (0 \<le> sint page \<and> sint page \<le> 184467440737095516 \<longrightarrow>
      sint (page * searchPageSize) = sint page * 50) \<and>
   (CarsHandler_list SearchInContext prettifyName st searchTerm page = Template t \<and>
    unat (Total (Results t)) < 2 ^ 53 \<longrightarrow>
      sint (NumPages t) = \<lceil>(of_nat (unat (Total (Results t))) :: rat) / 50\<rceil>) \<and>
   sint searchPageSize = 50 \<and> sint (numPages 125) = 3"
proof (intro conjI impI)
  show "CarsHandler_list SearchInContext prettifyName st searchTerm page =
     CarsHandler_list (\<lambda>idx request.
         if Size request = searchPageSize \<and> From request = page * searchPageSize
         then SearchInContext idx request else Inl IndexError) prettifyName st searchTerm page"
    unfolding CarsHandler_list_def
    by (subst Search_only_request) (rule refl)
next
  assume "0 \<le> sint page \<and> sint page \<le> 184467440737095516"
  then show "sint (page * searchPageSize) = sint page * 50"
    by (simp add: sint_times_searchPageSize)
next
  assume a: "CarsHandler_list SearchInContext prettifyName st searchTerm page = Template t \<and>
    unat (Total (Results t)) < 2 ^ 53"
  then have "NumPages t = numPages (Total (Results t))"
    by (auto simp: CarsHandler_list_def split: sum.splits prod.splits)
  with a show "sint (NumPages t) = \<lceil>(of_nat (unat (Total (Results t))) :: rat) / 50\<rceil>"
    by (simp add: numPages_small)
next
  show "sint searchPageSize = 50" by (simp add: searchPageSize_def)
next
  show "sint (numPages 125) = 3" by (simp add: numPages_125)
qed

text \<open>
  C7 on the example installation: page 2 of a search with 125 hits asks for the offset
  100 and reports 3 pages.
\<close>

theorem list_pagination_witness:
  "0 \<le> sint (2 :: go_int) \<and> sint (2 :: go_int) \<le> 184467440737095516 \<and>
   sint ((2 :: go_int) * searchPageSize) = sint (2 :: go_int) * 50 \<and>
   sint ((2 :: go_int) * searchPageSize) = 100 \<and>
   CarsHandler_list example_SearchInContext_125 example_prettifyName example_state [] 2 =
     Template \<lparr>Results = \<lparr>Hits = [''abarth500''], Total = 125\<rparr>,
       Cars = [''abarth500'' \<mapsto> example_abarth], Query = [], CurrentPage = 2, NumPages = 3,
       PageSize = 50\<rparr> \<and>
   unat (125 :: 64 word) < 2 ^ 53 \<and>
   sint (3 :: go_int) = \<lceil>(of_nat (unat (125 :: 64 word)) :: rat) / 50\<rceil>"
proof -
  let ?t = "\<lparr>Results = \<lparr>Hits = [''abarth500''], Total = 125\<rparr>,
       Cars = [''abarth500'' \<mapsto> example_abarth], Query = [], CurrentPage = 2,
       NumPages = 3, PageSize = 50\<rparr>"
  have p: "0 \<le> sint (2 :: go_int)" "sint (2 :: go_int) \<le> 184467440737095516"
    by simp_all
  have "Search example_SearchInContext_125 example_prettifyName example_state []
      ((2 :: go_int) * searchPageSize) =
      Inr (\<lparr>Hits = [''abarth500''], Total = 125\<rparr>, [''abarth500'' \<mapsto> example_abarth])"
    by (simp add: Search_def example_SearchInContext_125_def example_state_parts
        example_LoadCar_abarth)
  then have l: "CarsHandler_list example_SearchInContext_125 example_prettifyName example_state
      [] 2 = Template ?t"
    by (simp add: CarsHandler_list_def searchPageSize_def numPages_125)
  have u: "unat (Total (Results ?t)) < 2 ^ 53" by simp
  note th = list_pagination [of example_SearchInContext_125 example_prettifyName example_state
      "[]" 2 ?t]
  from th p have o: "sint ((2 :: go_int) * searchPageSize) = sint (2 :: go_int) * 50"
    by blast
  from th l u have "sint (NumPages ?t) = \<lceil>(of_nat (unat (Total (Results ?t))) :: rat) / 50\<rceil>"
    by blast
  then have n: "sint (3 :: go_int) = \<lceil>(of_nat (unat (125 :: 64 word)) :: rat) / 50\<rceil>"
    by simp
  from o have "sint ((2 :: go_int) * searchPageSize) = 100"
    by simp
  with l p o n show ?thesis by simp
qed

end
